theory Spec2Isabelle
  imports Main "HOL-Library.AList" "HOL-Library.Char_ord" "HOL-Library.List_Lexorder"
begin

section \<open>Values, documents and exceptions\<close>

text \<open>
  Documents of the Cosmos container and decoded blobs are JSON values as Python sees
  them after \<^verbatim>\<open>json.loads\<close>. A Python \<^verbatim>\<open>dict\<close> is an association list (insertion
  order kept, the first binding of a key is the binding). Strings are lists of code
  points below 256; numbers are the integers (no property below reads a float).
\<close>

datatype val =
    VNone
  | VBool bool
  | VInt int
  | VStr string
  | VList "val list"
  | VDict "(string \<times> val) list"

type_synonym dict = "(string \<times> val) list"

text \<open>\<^verbatim>\<open>d.get(k)\<close>: the value, or \<^verbatim>\<open>None\<close> when the key is missing.\<close>

definition py_get :: "dict \<Rightarrow> string \<Rightarrow> val" where
  "py_get d k = (case map_of d k of None \<Rightarrow> VNone | Some v \<Rightarrow> v)"

text \<open>\<^verbatim>\<open>d.get(k, dflt)\<close>.\<close>

definition py_get_default :: "dict \<Rightarrow> string \<Rightarrow> val \<Rightarrow> val" where
  "py_get_default d k dflt = (case map_of d k of None \<Rightarrow> dflt | Some v \<Rightarrow> v)"

text \<open>Python's truth value of an object, as \<^verbatim>\<open>if x:\<close> and \<^verbatim>\<open>not x\<close> test it.\<close>

fun truthy :: "val \<Rightarrow> bool" where
  "truthy VNone = False"
| "truthy (VBool b) = b"
| "truthy (VInt i) = (i \<noteq> 0)"
| "truthy (VStr s) = (s \<noteq> [])"
| "truthy (VList xs) = (xs \<noteq> [])"
| "truthy (VDict d) = (d \<noteq> [])"

datatype exn =
    KeyError string
  | TypeError
  | AttributeError
  | ValueError
  | CosmosResourceNotFoundError
  | ServiceError string
  | Exception string

text \<open>
  \<^verbatim>\<open>str(e)\<close>. A \<^verbatim>\<open>KeyError\<close> prints the quoted key, \<^verbatim>\<open>Exception(msg)\<close> and a
  service error print their message; the interpreter's own texts for the other
  errors are abbreviated to the name of the error.
\<close>

fun str_exn :: "exn \<Rightarrow> string" where
  "str_exn (KeyError k) = [CHR 0x27] @ k @ [CHR 0x27]"
| "str_exn TypeError = ''TypeError''"
| "str_exn AttributeError = ''AttributeError''"
| "str_exn ValueError = ''ValueError''"
| "str_exn CosmosResourceNotFoundError = ''NotFound''"
| "str_exn (ServiceError m) = m"
| "str_exn (Exception m) = m"


section \<open>The environment and the two backing stores\<close>

text \<open>
  What the program takes from outside its own source is a parameter of the model:
  \<^item> \<open>faults\<close>: whether the n-th call to a backing store raises (and with which
    message); any pattern of network and service failures is one such schedule;
  \<^item> \<open>clock\<close>: the n-th reading of \<^verbatim>\<open>datetime.utcnow()\<close>, in microseconds;
  \<^item> \<open>isoformat\<close>, \<open>fromisoformat\<close>: the runtime's \<^verbatim>\<open>datetime.isoformat\<close> and
    \<^verbatim>\<open>datetime.fromisoformat\<close> (the latter yields year, month and day, or \<open>None\<close>
    where it raises \<^verbatim>\<open>ValueError\<close>);
  \<^item> \<open>dumps_len\<close>: the length of \<^verbatim>\<open>json.dumps(record, indent=2).encode('utf-8')\<close>;
  \<^item> \<open>py_str\<close>: \<^verbatim>\<open>str(v)\<close> for a value that is not a string.
\<close>

record env =
  faults :: "nat \<Rightarrow> string option"
  clock :: "nat \<Rightarrow> int"
  isoformat :: "int \<Rightarrow> string"
  fromisoformat :: "string \<Rightarrow> (nat \<times> nat \<times> nat) option"
  dumps_len :: "val \<Rightarrow> nat"
  py_str :: "val \<Rightarrow> string"

text \<open>
  A stored blob either decodes (UTF-8, JSON) to a value or does not.
\<close>

datatype blob = Json val | Undecodable

text \<open>Every call that reaches a backing store is logged, in order.\<close>

datatype event =
    CosmosRead string
  | CosmosQuery
  | CosmosReplace string
  | BlobPut string string
  | BlobGet string string
  | BlobDelete string string

record world =
  cosmos :: "dict list"
  blobs :: "string \<times> string \<Rightarrow> blob option"
  log :: "event list"
  reads :: nat

definition hot_container :: string where
  "hot_container = ''billing-hot''"

definition cold_container :: string where
  "cold_container = ''billing-cold''"

text \<open>One call to a backing store: it is logged, and the schedule says whether it fails.\<close>

definition backend_call :: "env \<Rightarrow> event \<Rightarrow> world \<Rightarrow> string option \<times> world" where
  "backend_call E ev w = (faults E (length (log w)), w\<lparr>log := log w @ [ev]\<rparr>)"

text \<open>\<^verbatim>\<open>datetime.utcnow()\<close>.\<close>

definition utcnow :: "env \<Rightarrow> world \<Rightarrow> int \<times> world" where
  "utcnow E w = (clock E (reads w), w\<lparr>reads := Suc (reads w)\<rparr>)"

definition has_id :: "string \<Rightarrow> dict \<Rightarrow> bool" where
  "has_id i d = (map_of d ''id'' = Some (VStr i))"

text \<open>\<^verbatim>\<open>container.read_item(item=record_id, partition_key=record_id)\<close>.\<close>

definition read_item :: "env \<Rightarrow> string \<Rightarrow> world \<Rightarrow> (exn + dict) \<times> world" where
  "read_item E record_id w =
     (case backend_call E (CosmosRead record_id) w of
        (Some m, w') \<Rightarrow> (Inl (ServiceError m), w')
      | (None, w') \<Rightarrow>
          (case find (has_id record_id) (cosmos w') of
             None \<Rightarrow> (Inl CosmosResourceNotFoundError, w')
           | Some d \<Rightarrow> (Inr d, w')))"

text \<open>
  \<^verbatim>\<open>container.replace_item(id, body)\<close>: the document with this id is replaced as a
  whole; replacing a document that is not there fails.
\<close>

definition replace_item :: "env \<Rightarrow> string \<Rightarrow> dict \<Rightarrow> world \<Rightarrow> (exn + unit) \<times> world" where
  "replace_item E i body w =
     (case backend_call E (CosmosReplace i) w of
        (Some m, w') \<Rightarrow> (Inl (ServiceError m), w')
      | (None, w') \<Rightarrow>
          (if list_ex (has_id i) (cosmos w')
           then (Inr (), w'\<lparr>cosmos := map (\<lambda>d. if has_id i d then body else d) (cosmos w')\<rparr>)
           else (Inl CosmosResourceNotFoundError, w')))"

text \<open>
  \<^verbatim>\<open>get_blob_client(container, blob).download_blob().readall()\<close> followed by
  \<^verbatim>\<open>json.loads(data.decode('utf-8'))\<close>. A blob name is a string; the client rejects
  any other value before a request is made.
\<close>

definition download_json :: "env \<Rightarrow> string \<Rightarrow> val \<Rightarrow> world \<Rightarrow> (exn + val) \<times> world" where
  "download_json E container blob_path w =
     (case blob_path of
        VStr p \<Rightarrow>
          (case backend_call E (BlobGet container p) w of
             (Some m, w') \<Rightarrow> (Inl (ServiceError m), w')
           | (None, w') \<Rightarrow>
               (case blobs w' (container, p) of
                  None \<Rightarrow> (Inl (ServiceError ''BlobNotFound''), w')
                | Some Undecodable \<Rightarrow> (Inl ValueError, w')
                | Some (Json v) \<Rightarrow> (Inr v, w')))
      | _ \<Rightarrow> (Inl TypeError, w))"


text \<open>\<^verbatim>\<open>d[k]\<close>: raises \<^verbatim>\<open>KeyError\<close> when the key is missing.\<close>

definition py_index :: "dict \<Rightarrow> string \<Rightarrow> exn + val" where
  "py_index d k = (case map_of d k of None \<Rightarrow> Inl (KeyError k) | Some v \<Rightarrow> Inr v)"

subsection \<open>Queries against the Cosmos container\<close>

text \<open>
  The four SQL texts of the program, with their parameters:
  \<^item> \<open>Tier1Window one_month_ago three_months_ago\<close>:
    \<^verbatim>\<open>WHERE c.createdAt < @one_month_ago AND c.createdAt >= @three_months_ago
        AND (c.storage_tier IS NULL OR c.storage_tier = 'cosmos') ORDER BY c.createdAt ASC\<close>
  \<^item> \<open>Tier2Older three_months_ago\<close>:
    \<^verbatim>\<open>WHERE c.createdAt < @three_months_ago AND c.storage_tier = 'hot_blob'
        ORDER BY c.createdAt ASC\<close>
  \<^item> \<open>ByCustomer customer_id\<close>:
    \<^verbatim>\<open>WHERE c.customerId = @customer_id ORDER BY c.createdAt DESC\<close>
  \<^item> \<open>CountByTier\<close>:
    \<^verbatim>\<open>SELECT c.storage_tier, COUNT(1) as record_count FROM c GROUP BY c.storage_tier\<close>

  The parameters of the range conditions are ISO-8601 strings, so the stored
  \<^verbatim>\<open>createdAt\<close> is compared as a string, in lexicographic order; a \<^verbatim>\<open>createdAt\<close>
  that is not a string satisfies no range condition. \<^verbatim>\<open>IS NULL\<close> is read as in the
  program's own \<^verbatim>\<open>_is_record_in_tier1\<close>: the property is missing or null.
\<close>

datatype query =
    Tier1Window string string
  | Tier2Older string
  | ByCustomer val
  | CountByTier

definition created_at_str :: "dict \<Rightarrow> string option" where
  "created_at_str d = (case map_of d ''createdAt'' of Some (VStr s) \<Rightarrow> Some s | _ \<Rightarrow> None)"

definition created_key :: "dict \<Rightarrow> string" where
  "created_key d = (case created_at_str d of Some s \<Rightarrow> s | None \<Rightarrow> [])"

fun matches :: "query \<Rightarrow> dict \<Rightarrow> bool" where
  "matches (Tier1Window one_month_ago three_months_ago) d =
     (case created_at_str d of
        Some s \<Rightarrow> s < one_month_ago \<and> three_months_ago \<le> s
                  \<and> (py_get d ''storage_tier'' = VNone \<or> py_get d ''storage_tier'' = VStr ''cosmos'')
      | None \<Rightarrow> False)"
| "matches (Tier2Older three_months_ago) d =
     (case created_at_str d of
        Some s \<Rightarrow> s < three_months_ago \<and> py_get d ''storage_tier'' = VStr ''hot_blob''
      | None \<Rightarrow> False)"
| "matches (ByCustomer customer_id) d = (map_of d ''customerId'' = Some customer_id)"
| "matches CountByTier d = True"

text \<open>
  One row per distinct value of \<^verbatim>\<open>storage_tier\<close>, in the order of first occurrence. The
  documents without the property form a group of their own, whose row has no
  \<^verbatim>\<open>storage_tier\<close> either.
\<close>

definition group_row :: "dict list \<Rightarrow> val option \<Rightarrow> dict" where
  "group_row docs k =
     (case k of None \<Rightarrow> [] | Some v \<Rightarrow> [(''storage_tier'', v)])
     @ [(''record_count'', VInt (int (length (filter (\<lambda>d. map_of d ''storage_tier'' = k) docs))))]"

definition group_by_tier :: "dict list \<Rightarrow> dict list" where
  "group_by_tier docs =
     map (group_row docs) (remdups (map (\<lambda>d. map_of d ''storage_tier'') docs))"

text \<open>
  The rows a query yields. Ties of \<^verbatim>\<open>ORDER BY\<close> keep the order of the container; an
  ordered query leaves out the documents that have no \<^verbatim>\<open>createdAt\<close>.
\<close>

fun run_query :: "query \<Rightarrow> dict list \<Rightarrow> dict list" where
  "run_query CountByTier docs = group_by_tier docs"
| "run_query (ByCustomer c) docs =
     rev (sort_key created_key
            (filter (\<lambda>d. matches (ByCustomer c) d \<and> map_of d ''createdAt'' \<noteq> None) docs))"
| "run_query q docs = sort_key created_key (filter (matches q) docs)"

text \<open>
  \<^verbatim>\<open>max_item_count\<close> is the page size of the paged result that \<^verbatim>\<open>query_items\<close>
  returns (the \<^verbatim>\<open>x-ms-max-item-count\<close> header of each request): the rows come in
  pages of at most that many, and there are as many pages as the rows need. Without
  it, or with 0, the size of the pages is the service's; the model then has one page.
\<close>

fun pages_of :: "nat \<Rightarrow> 'a list \<Rightarrow> 'a list list" where
  "pages_of k [] = []"
| "pages_of k (x # xs) = (x # take k xs) # pages_of k (drop k xs)"

fun paged :: "nat option \<Rightarrow> 'a list \<Rightarrow> 'a list list" where
  "paged None xs = [xs]"
| "paged (Some 0) xs = [xs]"
| "paged (Some (Suc k)) xs = pages_of k xs"

text \<open>
  \<^verbatim>\<open>container.query_items(query, parameters, enable_cross_partition_query=True,
  max_item_count=n)\<close>: the pages of the result, or the error of the service.
\<close>

definition query_items ::
  "env \<Rightarrow> query \<Rightarrow> nat option \<Rightarrow> world \<Rightarrow> (exn + dict list list) \<times> world" where
  "query_items E q max_item_count w =
     (case backend_call E CosmosQuery w of
        (Some m, w') \<Rightarrow> (Inl (ServiceError m), w')
      | (None, w') \<Rightarrow> (Inr (paged max_item_count (run_query q (cosmos w'))), w'))"

text \<open>\<^verbatim>\<open>list(pages)\<close> iterates the paged result to its end.\<close>

definition list_of_pages :: "'a list list \<Rightarrow> 'a list" where
  "list_of_pages pages = concat pages"


section \<open>Retrieval.py: TieredRetrieval\<close>

text \<open>
  The engine's counters. Wall-clock timing (\<^verbatim>\<open>time.time()\<close>, the response time that
  is the third component of every result, and the lists of response times) is
  floating point and is left out.
\<close>

record performance_stats =
  tier1_hits :: nat
  tier2_hits :: nat
  tier3_hits :: nat
  cache_misses :: nat

definition search_cosmos_db :: "env \<Rightarrow> string \<Rightarrow> world \<Rightarrow> dict option \<times> world" where
  "search_cosmos_db E record_id w =
     (case read_item E record_id w of
        (Inr item, w') \<Rightarrow> (Some item, w')
      | (Inl CosmosResourceNotFoundError, w') \<Rightarrow> (None, w')
      | (Inl e, w') \<Rightarrow> (None, w'))"

definition search_hot_blob :: "env \<Rightarrow> val \<Rightarrow> world \<Rightarrow> val option \<times> world" where
  "search_hot_blob E blob_path w =
     (if \<not> truthy blob_path then (None, w)
      else (case download_json E hot_container blob_path w of
              (Inr record, w') \<Rightarrow> (Some record, w')
            | (Inl e, w') \<Rightarrow> (None, w')))"

definition search_cold_blob :: "env \<Rightarrow> val \<Rightarrow> world \<Rightarrow> val option \<times> world" where
  "search_cold_blob E blob_path w =
     (if \<not> truthy blob_path then (None, w)
      else (case download_json E cold_container blob_path w of
              (Inr record, w') \<Rightarrow> (Some record, w')
            | (Inl e, w') \<Rightarrow> (None, w')))"

definition is_record_in_tier1 :: "dict \<Rightarrow> bool" where
  "is_record_in_tier1 record =
     (let storage_tier = py_get record ''storage_tier''
      in storage_tier = VNone \<or> storage_tier = VStr ''cosmos'')"

text \<open>The truth value of an optional result: \<^verbatim>\<open>None\<close> and empty containers are false.\<close>

definition truthy_opt :: "val option \<Rightarrow> bool" where
  "truthy_opt r = (case r of None \<Rightarrow> False | Some v \<Rightarrow> truthy v)"

text \<open>
  \<^verbatim>\<open>get_billing_record\<close> returns the record (or \<^verbatim>\<open>None\<close>) and the source tier; the
  model returns the world and the counters after the call as well.
\<close>

definition miss :: "world \<Rightarrow> performance_stats \<Rightarrow> (val option \<times> string) \<times> world \<times> performance_stats" where
  "miss w ps = ((None, ''not-found''), w, ps\<lparr>cache_misses := cache_misses ps + 1\<rparr>)"

definition tier3_lookup ::
  "env \<Rightarrow> dict option \<Rightarrow> world \<Rightarrow> performance_stats
     \<Rightarrow> (val option \<times> string) \<times> world \<times> performance_stats" where
  "tier3_lookup E record w ps =
     (case record of
        Some r \<Rightarrow>
          (if r \<noteq> [] \<and> py_get r ''storage_tier'' = VStr ''cold_blob''
           then (case search_cold_blob E (py_get r ''blob_path'') w of
                   (blob_record, w') \<Rightarrow>
                     (if truthy_opt blob_record
                      then ((blob_record, ''tier3-cold''), w', ps\<lparr>tier3_hits := tier3_hits ps + 1\<rparr>)
                      else miss w' ps))
           else miss w ps)
      | None \<Rightarrow> miss w ps)"

definition tier2_lookup ::
  "env \<Rightarrow> dict option \<Rightarrow> world \<Rightarrow> performance_stats
     \<Rightarrow> (val option \<times> string) \<times> world \<times> performance_stats" where
  "tier2_lookup E record w ps =
     (case record of
        Some r \<Rightarrow>
          (if r \<noteq> [] \<and> py_get r ''storage_tier'' = VStr ''hot_blob''
           then (case search_hot_blob E (py_get r ''blob_path'') w of
                   (blob_record, w') \<Rightarrow>
                     (if truthy_opt blob_record
                      then ((blob_record, ''tier2-hot''), w', ps\<lparr>tier2_hits := tier2_hits ps + 1\<rparr>)
                      else tier3_lookup E record w' ps))
           else tier3_lookup E record w ps)
      | None \<Rightarrow> tier3_lookup E record w ps)"

definition get_billing_record ::
  "env \<Rightarrow> string \<Rightarrow> world \<Rightarrow> performance_stats
     \<Rightarrow> (val option \<times> string) \<times> world \<times> performance_stats" where
  "get_billing_record E record_id w ps =
     (case search_cosmos_db E record_id w of
        (record, w1) \<Rightarrow>
          (case record of
             Some r \<Rightarrow>
               (if r \<noteq> [] \<and> is_record_in_tier1 r
                then ((Some (VDict r), ''tier1-cosmos''), w1, ps\<lparr>tier1_hits := tier1_hits ps + 1\<rparr>)
                else tier2_lookup E record w1 ps)
           | None \<Rightarrow> tier2_lookup E record w1 ps))"

text \<open>
  \<^verbatim>\<open>get_records_by_customer\<close>. The loop runs inside the \<^verbatim>\<open>try\<close> of the function, whose
  handler returns the empty list; the result type keeps a place for an exception that
  would reach the caller.
\<close>

definition customer_entry :: "val \<Rightarrow> string \<Rightarrow> val \<Rightarrow> dict" where
  "customer_entry r src i = [(''record'', r), (''source'', VStr src), (''record_id'', i)]"

fun customer_loop :: "env \<Rightarrow> dict list \<Rightarrow> world \<Rightarrow> dict list \<Rightarrow> (exn + dict list) \<times> world" where
  "customer_loop E [] w all_records = (Inr all_records, w)"
| "customer_loop E (item # items) w all_records =
     (if is_record_in_tier1 item
      then (case py_index item ''id'' of
              Inl e \<Rightarrow> (Inl e, w)
            | Inr i \<Rightarrow>
                customer_loop E items w
                  (all_records @ [customer_entry (VDict item) ''tier1-cosmos'' i]))
      else if py_get item ''storage_tier'' = VStr ''hot_blob''
      then (case search_hot_blob E (py_get item ''blob_path'') w of
              (blob_record, w') \<Rightarrow>
                (case blob_record of
                   Some b \<Rightarrow>
                     (if truthy b
                      then (case py_index item ''id'' of
                              Inl e \<Rightarrow> (Inl e, w')
                            | Inr i \<Rightarrow>
                                customer_loop E items w'
                                  (all_records @ [customer_entry b ''tier2-hot'' i]))
                      else customer_loop E items w' all_records)
                 | None \<Rightarrow> customer_loop E items w' all_records))
      else if py_get item ''storage_tier'' = VStr ''cold_blob''
      then (case search_cold_blob E (py_get item ''blob_path'') w of
              (blob_record, w') \<Rightarrow>
                (case blob_record of
                   Some b \<Rightarrow>
                     (if truthy b
                      then (case py_index item ''id'' of
                              Inl e \<Rightarrow> (Inl e, w')
                            | Inr i \<Rightarrow>
                                customer_loop E items w'
                                  (all_records @ [customer_entry b ''tier3-cold'' i]))
                      else customer_loop E items w' all_records)
                 | None \<Rightarrow> customer_loop E items w' all_records))
      else customer_loop E items w all_records)"

definition get_records_by_customer ::
  "env \<Rightarrow> val \<Rightarrow> nat \<Rightarrow> world \<Rightarrow> (exn + dict list) \<times> world" where
  "get_records_by_customer E customer_id limit w =
     (case query_items E (ByCustomer customer_id) (Some limit) w of
        (Inl e, w') \<Rightarrow> (Inr [], w')
      | (Inr pages, w') \<Rightarrow>
          (case customer_loop E (list_of_pages pages) w' [] of
             (Inl e, w'') \<Rightarrow> (Inr [], w'')
           | (Inr all_records, w'') \<Rightarrow> (Inr all_records, w'')))"

text \<open>
  \<^verbatim>\<open>get_storage_statistics\<close>. Of the performance snapshot the model keeps the total
  number of requests; the percentages and mean latencies are floating point.
\<close>

record storage_stats =
  tier1_cosmos :: val
  tier2_hot_blob :: val
  tier3_cold_blob :: val
  total_records :: int
  performance_total_requests :: nat

definition get_performance_stats :: "performance_stats \<Rightarrow> nat" where
  "get_performance_stats ps = tier1_hits ps + tier2_hits ps + tier3_hits ps + cache_misses ps"

text \<open>
  The loop over the rows of the aggregation. The bucket of a row is assigned
  (\<^verbatim>\<open>stats[...] = count\<close>), the total is added to (\<^verbatim>\<open>stats['total_records'] += count\<close>);
  adding a count that is no number raises \<^verbatim>\<open>TypeError\<close>.
\<close>

fun stats_loop :: "dict list \<Rightarrow> storage_stats \<Rightarrow> exn option \<times> storage_stats" where
  "stats_loop [] stats = (None, stats)"
| "stats_loop (item # items) stats =
     (let tier = py_get_default item ''storage_tier'' (VStr ''cosmos'');
          count = py_get_default item ''record_count'' (VInt 0);
          stats1 =
            (if tier = VNone \<or> tier = VStr ''cosmos'' then stats\<lparr>tier1_cosmos := count\<rparr>
             else if tier = VStr ''hot_blob'' then stats\<lparr>tier2_hot_blob := count\<rparr>
             else if tier = VStr ''cold_blob'' then stats\<lparr>tier3_cold_blob := count\<rparr>
             else stats)
      in (case count of
            VInt n \<Rightarrow> stats_loop items (stats1\<lparr>total_records := total_records stats1 + n\<rparr>)
          | VBool b \<Rightarrow>
              stats_loop items
                (stats1\<lparr>total_records := total_records stats1 + (if b then 1 else 0)\<rparr>)
          | _ \<Rightarrow> (Some TypeError, stats1)))"

definition get_storage_statistics ::
  "env \<Rightarrow> world \<Rightarrow> performance_stats \<Rightarrow> (exn + storage_stats) \<times> world" where
  "get_storage_statistics E w ps =
     (let stats = \<lparr>tier1_cosmos = VInt 0, tier2_hot_blob = VInt 0, tier3_cold_blob = VInt 0,
                    total_records = 0, performance_total_requests = get_performance_stats ps\<rparr>
      in (case query_items E CountByTier None w of
            (Inl e, w') \<Rightarrow> (Inr stats, w')
          | (Inr pages, w') \<Rightarrow>
              (case stats_loop (list_of_pages pages) stats of
                 (Some e, stats') \<Rightarrow> (Inr stats', w')
               | (None, stats') \<Rightarrow> (Inr stats', w'))))"


section \<open>The migration engine: TieredDataTransfer\<close>

subsection \<open>Blob paths\<close>

text \<open>
  \<^verbatim>\<open>c.isalnum()\<close> of a character is Unicode's: next to the ASCII letters and digits it
  holds of the letters, superscript digits and fractions of Latin-1 (code points 170,
  178, 179, 181, 185, 186, 188 to 190, 192 to 214, 216 to 246 and 248 to 255).
\<close>

definition isalnum :: "char \<Rightarrow> bool" where
  "isalnum c =
     (let n = (of_char c :: nat)
      in (48 \<le> n \<and> n \<le> 57) \<or> (65 \<le> n \<and> n \<le> 90) \<or> (97 \<le> n \<and> n \<le> 122)
         \<or> n = 170 \<or> n = 178 \<or> n = 179 \<or> n = 181 \<or> n = 185 \<or> n = 186
         \<or> (188 \<le> n \<and> n \<le> 190) \<or> (192 \<le> n \<and> n \<le> 214)
         \<or> (216 \<le> n \<and> n \<le> 246) \<or> 248 \<le> n)"

text \<open>\<^verbatim>\<open>c if c.isalnum() or c in ['_', '-'] else '_'\<close>, for a character of a string.\<close>

definition sanitize_char :: "char \<Rightarrow> char" where
  "sanitize_char c = (if isalnum c \<or> c = CHR ''_'' \<or> c = CHR ''-'' then c else CHR ''_'')"

text \<open>
  The same expression for an element of a list or a key of a dict, which is a whole
  string: \<^verbatim>\<open>s.isalnum()\<close> holds when \<open>s\<close> is not empty and all its characters are
  alphanumeric. An element that is no string has no \<^verbatim>\<open>isalnum\<close>.
\<close>

definition sanitize_piece :: "string \<Rightarrow> string" where
  "sanitize_piece t =
     (if (t \<noteq> [] \<and> list_all isalnum t) \<or> t = ''_'' \<or> t = ''-'' then t else ''_'')"

fun sanitize_pieces :: "val list \<Rightarrow> exn + string" where
  "sanitize_pieces [] = Inr []"
| "sanitize_pieces (VStr t # vs) =
     (case sanitize_pieces vs of Inl e \<Rightarrow> Inl e | Inr r \<Rightarrow> Inr (sanitize_piece t @ r))"
| "sanitize_pieces (v # vs) = Inl AttributeError"

text \<open>
  \<^verbatim>\<open>"".join(... for c in customer_id)\<close>: a string is iterated by character, a list by
  element, a dict by key; the other values are not iterable.
\<close>

fun safe_customer_id :: "val \<Rightarrow> exn + string" where
  "safe_customer_id (VStr s) = Inr (map sanitize_char s)"
| "safe_customer_id (VList vs) = sanitize_pieces vs"
| "safe_customer_id (VDict kvs) = sanitize_pieces (map (VStr \<circ> fst) (AList.clearjunk kvs))"
| "safe_customer_id v = Inl TypeError"

text \<open>Decimal digits of a number, as \<^verbatim>\<open>f"{year}"\<close> prints them, and \<^verbatim>\<open>f"{month:02d}"\<close>.\<close>

definition digit_char :: "nat \<Rightarrow> char" where
  "digit_char n = ''0123456789'' ! n"

function show_nat :: "nat \<Rightarrow> string" where
  "show_nat n = (if n < 10 then [digit_char n] else show_nat (n div 10) @ [digit_char (n mod 10)])"
  by pat_completeness auto
termination
  by (relation "measure id") auto

declare show_nat.simps [simp del]

definition pad2 :: "nat \<Rightarrow> string" where
  "pad2 n = (if n < 10 then CHR ''0'' # show_nat n else show_nat n)"

text \<open>\<^verbatim>\<open>s.replace('Z', '+00:00')\<close>.\<close>

definition replace_Z :: "string \<Rightarrow> string" where
  "replace_Z s = concat (map (\<lambda>c. if c = CHR ''Z'' then ''+00:00'' else [c]) s)"

text \<open>A value inside an f-string: a string prints as itself.\<close>

definition format_val :: "env \<Rightarrow> val \<Rightarrow> string" where
  "format_val E v = (case v of VStr s \<Rightarrow> s | _ \<Rightarrow> py_str E v)"

text \<open>
  The body of the \<^verbatim>\<open>try\<close> of \<^verbatim>\<open>_generate_blob_path\<close>. Subscripting a value that is no
  dict raises \<^verbatim>\<open>TypeError\<close>; a \<^verbatim>\<open>createdAt\<close> that is no string is taken for a datetime
  and has no \<^verbatim>\<open>year\<close>.
\<close>

definition blob_path_try :: "env \<Rightarrow> val \<Rightarrow> string \<Rightarrow> exn + string" where
  "blob_path_try E record tier =
     (case record of
        VDict d \<Rightarrow>
          (case py_index d ''createdAt'' of
             Inl e \<Rightarrow> Inl e
           | Inr (VStr s) \<Rightarrow>
               (case fromisoformat E (replace_Z s) of
                  None \<Rightarrow> Inl ValueError
                | Some (year, month, day) \<Rightarrow>
                    (case safe_customer_id (py_get_default d ''customerId'' (VStr ''unknown'')) of
                       Inl e \<Rightarrow> Inl e
                     | Inr safe \<Rightarrow>
                         (case py_index d ''id'' of
                            Inl e \<Rightarrow> Inl e
                          | Inr i \<Rightarrow>
                              Inr (tier @ ''/'' @ show_nat year @ ''/'' @ pad2 month @ ''/''
                                   @ pad2 day @ ''/'' @ safe @ ''/'' @ format_val E i @ ''.json''))))
           | Inr v \<Rightarrow> Inl AttributeError)
      | _ \<Rightarrow> Inl TypeError)"

text \<open>
  The handler of that \<^verbatim>\<open>try\<close>: it logs \<^verbatim>\<open>record.get('id', 'unknown')\<close> and returns the
  fallback path, and raises itself where the record is no dict or has no \<^verbatim>\<open>id\<close>.
\<close>

definition blob_path_fallback :: "env \<Rightarrow> val \<Rightarrow> string \<Rightarrow> exn + string" where
  "blob_path_fallback E record tier =
     (case record of
        VDict d \<Rightarrow>
          (case py_index d ''id'' of
             Inl e \<Rightarrow> Inl e
           | Inr i \<Rightarrow> Inr (tier @ ''/error/'' @ format_val E i @ ''.json''))
      | _ \<Rightarrow> Inl AttributeError)"

definition generate_blob_path :: "env \<Rightarrow> val \<Rightarrow> string \<Rightarrow> exn + string" where
  "generate_blob_path E record tier =
     (case blob_path_try E record tier of
        Inr path \<Rightarrow> Inr path
      | Inl e \<Rightarrow> blob_path_fallback E record tier)"

subsection \<open>Blob operations\<close>

text \<open>
  \<^verbatim>\<open>_store_in_blob\<close>: the blob's metadata is built first (it subscripts
  \<^verbatim>\<open>record['id']\<close> and reads the clock), then the upload is made, with
  \<^verbatim>\<open>overwrite=True\<close>. Every exception is raised again. The metadata itself is not
  kept: nothing reads it.
\<close>

definition store_in_blob ::
  "env \<Rightarrow> val \<Rightarrow> string \<Rightarrow> string \<Rightarrow> world \<Rightarrow> (exn + nat) \<times> world" where
  "store_in_blob E record container_name blob_path w =
     (let blob_size = dumps_len E record
      in (case record of
            VDict d \<Rightarrow>
              (case py_index d ''id'' of
                 Inl e \<Rightarrow> (Inl e, w)
               | Inr i \<Rightarrow>
                   (case utcnow E w of
                      (migrated_at, w1) \<Rightarrow>
                        (case backend_call E (BlobPut container_name blob_path) w1 of
                           (Some m, w2) \<Rightarrow> (Inl (ServiceError m), w2)
                         | (None, w2) \<Rightarrow>
                             (Inr blob_size,
                              w2\<lparr>blobs := (blobs w2)((container_name, blob_path) \<mapsto> Json record)\<rparr>))))
          | _ \<Rightarrow> (Inl TypeError, w)))"

text \<open>\<^verbatim>\<open>_retrieve_from_blob\<close>: every exception becomes \<^verbatim>\<open>None\<close>.\<close>

definition retrieve_from_blob :: "env \<Rightarrow> string \<Rightarrow> val \<Rightarrow> world \<Rightarrow> val option \<times> world" where
  "retrieve_from_blob E container_name blob_path w =
     (case download_json E container_name blob_path w of
        (Inr record, w') \<Rightarrow> (Some record, w')
      | (Inl e, w') \<Rightarrow> (None, w'))"

text \<open>\<^verbatim>\<open>_delete_from_blob\<close>: every exception is logged and dropped.\<close>

definition delete_from_blob :: "env \<Rightarrow> string \<Rightarrow> val \<Rightarrow> world \<Rightarrow> world" where
  "delete_from_blob E container_name blob_path w =
     (case blob_path of
        VStr p \<Rightarrow>
          (case backend_call E (BlobDelete container_name p) w of
             (Some m, w') \<Rightarrow> w'
           | (None, w') \<Rightarrow> w'\<lparr>blobs := (blobs w')((container_name, p) := None)\<rparr>)
      | _ \<Rightarrow> w)"

subsection \<open>The two migration stages\<close>

record stage_stats =
  success :: nat
  failed :: nat
  errors :: "string list"

record transfer_stats =
  tier1_to_tier2 :: stage_stats
  tier2_to_tier3 :: stage_stats
  total_size_migrated :: nat

text \<open>\<^verbatim>\<open>timedelta(days=n)\<close>, in microseconds.\<close>

definition days :: "int \<Rightarrow> int" where
  "days n = n * 86400000000"

text \<open>\<^verbatim>\<open>container.replace_item(item['id'], item)\<close>.\<close>

definition replace_by_own_id :: "env \<Rightarrow> dict \<Rightarrow> world \<Rightarrow> (exn + unit) \<times> world" where
  "replace_by_own_id E item w =
     (case py_index item ''id'' of
        Inl e \<Rightarrow> (Inl e, w)
      | Inr (VStr i) \<Rightarrow> replace_item E i item w
      | Inr v \<Rightarrow> (Inl TypeError, w))"

text \<open>The four assignments to the pointer record after a blob has been written.\<close>

definition mark_migrated :: "string \<Rightarrow> string \<Rightarrow> string \<Rightarrow> string \<Rightarrow> nat \<Rightarrow> dict \<Rightarrow> dict" where
  "mark_migrated tier_name blob_path stamp_key stamp blob_size item =
     AList.update ''blob_size'' (VInt (int blob_size))
       (AList.update stamp_key (VStr stamp)
          (AList.update ''blob_path'' (VStr blob_path)
             (AList.update ''storage_tier'' (VStr tier_name) item)))"

text \<open>
  The body of the inner \<^verbatim>\<open>try\<close> of \<^verbatim>\<open>migrate_tier1_to_tier2\<close> for one item, up to
  the statistics: the size of the blob, or the exception that the handler receives.
\<close>

definition migrate_item_tier1 :: "env \<Rightarrow> dict \<Rightarrow> world \<Rightarrow> (exn + nat) \<times> world" where
  "migrate_item_tier1 E item w =
     (case generate_blob_path E (VDict item) ''hot'' of
        Inl e \<Rightarrow> (Inl e, w)
      | Inr blob_path \<Rightarrow>
          (case store_in_blob E (VDict item) hot_container blob_path w of
             (Inl e, w1) \<Rightarrow> (Inl e, w1)
           | (Inr blob_size, w1) \<Rightarrow>
               (case utcnow E w1 of
                  (now, w2) \<Rightarrow>
                    (case replace_by_own_id E
                            (mark_migrated ''hot_blob'' blob_path ''migrated_to_hot_at''
                               (isoformat E now) blob_size item) w2 of
                       (Inl e, w3) \<Rightarrow> (Inl e, w3)
                     | (Inr u, w3) \<Rightarrow> (Inr blob_size, w3)))))"

text \<open>The message of the handler: \<^verbatim>\<open>f"Record {item.get('id', 'unknown')}: {str(e)}"\<close>.\<close>

definition error_msg :: "env \<Rightarrow> dict \<Rightarrow> exn \<Rightarrow> string" where
  "error_msg E item e =
     ''Record '' @ format_val E (py_get_default item ''id'' (VStr ''unknown'')) @ '': '' @ str_exn e"

definition count_success :: "stage_stats \<Rightarrow> stage_stats" where
  "count_success s = s\<lparr>success := success s + 1\<rparr>"

definition count_failed :: "string \<Rightarrow> stage_stats \<Rightarrow> stage_stats" where
  "count_failed msg s = s\<lparr>failed := failed s + 1, errors := errors s @ [msg]\<rparr>"

fun tier1_loop :: "env \<Rightarrow> dict list \<Rightarrow> world \<Rightarrow> transfer_stats \<Rightarrow> world \<times> transfer_stats" where
  "tier1_loop E [] w st = (w, st)"
| "tier1_loop E (item # items) w st =
     (case migrate_item_tier1 E item w of
        (Inr blob_size, w') \<Rightarrow>
          tier1_loop E items w'
            (st\<lparr>tier1_to_tier2 := count_success (tier1_to_tier2 st),
                 total_size_migrated := total_size_migrated st + blob_size\<rparr>)
      | (Inl e, w') \<Rightarrow>
          tier1_loop E items w'
            (st\<lparr>tier1_to_tier2 := count_failed (error_msg E item e) (tier1_to_tier2 st)\<rparr>))"

text \<open>
  \<^verbatim>\<open>migrate_tier1_to_tier2(batch_size)\<close>: the clock is read once for each bound, the
  query is made with \<^verbatim>\<open>max_item_count=batch_size\<close> and its pages are collected by
  \<^verbatim>\<open>list(...)\<close>, then the items are migrated in that order. The outer handler logs and
  raises again.
\<close>

definition migrate_tier1_to_tier2 ::
  "env \<Rightarrow> nat \<Rightarrow> world \<Rightarrow> transfer_stats \<Rightarrow> (exn + unit) \<times> world \<times> transfer_stats" where
  "migrate_tier1_to_tier2 E batch_size w st =
     (case utcnow E w of
        (now1, w1) \<Rightarrow>
          (case utcnow E w1 of
             (now2, w2) \<Rightarrow>
               (let one_month_ago = now1 - days 30;
                    three_months_ago = now2 - days 90
                in (case query_items E
                           (Tier1Window (isoformat E one_month_ago) (isoformat E three_months_ago))
                           (Some batch_size) w2 of
                      (Inl e, w3) \<Rightarrow> (Inl e, w3, st)
                    | (Inr pages, w3) \<Rightarrow>
                        (case tier1_loop E (list_of_pages pages) w3 st of
                           (w4, st') \<Rightarrow> (Inr (), w4, st'))))))"

text \<open>
  The body of the inner \<^verbatim>\<open>try\<close> of \<^verbatim>\<open>migrate_tier2_to_tier3\<close> for one item. The blob
  that is deleted at the end is the one named by \<^verbatim>\<open>item['blob_path']\<close> as it is then,
  after the assignment of the cold path.
\<close>

definition migrate_item_tier2 :: "env \<Rightarrow> dict \<Rightarrow> world \<Rightarrow> (exn + nat) \<times> world" where
  "migrate_item_tier2 E item w =
     (case py_index item ''blob_path'' of
        Inl e \<Rightarrow> (Inl e, w)
      | Inr hot_path \<Rightarrow>
          (case retrieve_from_blob E hot_container hot_path w of
             (None, w1) \<Rightarrow>
               (Inl (Exception ''Could not retrieve record from hot blob storage''), w1)
           | (Some full_record, w1) \<Rightarrow>
               (if truthy full_record
                then (case generate_blob_path E full_record ''cold'' of
                        Inl e \<Rightarrow> (Inl e, w1)
                      | Inr cold_blob_path \<Rightarrow>
                          (case store_in_blob E full_record cold_container cold_blob_path w1 of
                             (Inl e, w2) \<Rightarrow> (Inl e, w2)
                           | (Inr blob_size, w2) \<Rightarrow>
                               (case utcnow E w2 of
                                  (now, w3) \<Rightarrow>
                                    (let item' = mark_migrated ''cold_blob'' cold_blob_path
                                                   ''migrated_to_cold_at'' (isoformat E now)
                                                   blob_size item
                                     in (case replace_by_own_id E item' w3 of
                                           (Inl e, w4) \<Rightarrow> (Inl e, w4)
                                         | (Inr u, w4) \<Rightarrow>
                                             (Inr blob_size,
                                              delete_from_blob E hot_container
                                                (py_get item' ''blob_path'') w4))))))
                else (Inl (Exception ''Could not retrieve record from hot blob storage''), w1))))"

fun tier2_loop :: "env \<Rightarrow> dict list \<Rightarrow> world \<Rightarrow> transfer_stats \<Rightarrow> world \<times> transfer_stats" where
  "tier2_loop E [] w st = (w, st)"
| "tier2_loop E (item # items) w st =
     (case migrate_item_tier2 E item w of
        (Inr blob_size, w') \<Rightarrow>
          tier2_loop E items w'
            (st\<lparr>tier2_to_tier3 := count_success (tier2_to_tier3 st),
                 total_size_migrated := total_size_migrated st + blob_size\<rparr>)
      | (Inl e, w') \<Rightarrow>
          tier2_loop E items w'
            (st\<lparr>tier2_to_tier3 := count_failed (error_msg E item e) (tier2_to_tier3 st)\<rparr>))"

definition migrate_tier2_to_tier3 ::
  "env \<Rightarrow> nat \<Rightarrow> world \<Rightarrow> transfer_stats \<Rightarrow> (exn + unit) \<times> world \<times> transfer_stats" where
  "migrate_tier2_to_tier3 E batch_size w st =
     (case utcnow E w of
        (now, w1) \<Rightarrow>
          (let three_months_ago = now - days 90
           in (case query_items E (Tier2Older (isoformat E three_months_ago))
                      (Some batch_size) w1 of
                 (Inl e, w2) \<Rightarrow> (Inl e, w2, st)
               | (Inr pages, w2) \<Rightarrow>
                   (case tier2_loop E (list_of_pages pages) w2 st of
                      (w3, st') \<Rightarrow> (Inr (), w3, st')))))"


section \<open>Observations used by the properties\<close>

text \<open>The calls to the blob store among the logged calls.\<close>

fun is_blob_event :: "event \<Rightarrow> bool" where
  "is_blob_event (BlobPut c p) = True"
| "is_blob_event (BlobGet c p) = True"
| "is_blob_event (BlobDelete c p) = True"
| "is_blob_event _ = False"

definition blob_calls :: "world \<Rightarrow> event list" where
  "blob_calls w = filter is_blob_event (log w)"


text \<open>
  The items that a migration stage receives from its query, when the query succeeds:
  the bounds are computed from the clock readings the stage makes before the query.
\<close>

definition tier1_selected :: "env \<Rightarrow> world \<Rightarrow> dict list" where
  "tier1_selected E w =
     run_query (Tier1Window (isoformat E (clock E (reads w) - days 30))
                            (isoformat E (clock E (Suc (reads w)) - days 90))) (cosmos w)"

definition tier2_selected :: "env \<Rightarrow> world \<Rightarrow> dict list" where
  "tier2_selected E w =
     run_query (Tier2Older (isoformat E (clock E (reads w) - days 90))) (cosmos w)"

text \<open>A message names a record when it begins with \<^verbatim>\<open>Record <id>: \<close> for the id of the record.\<close>

definition names_record :: "env \<Rightarrow> dict \<Rightarrow> string \<Rightarrow> bool" where
  "names_record E item msg =
     (let p = ''Record '' @ format_val E (py_get_default item ''id'' (VStr ''unknown'')) @ '': ''
      in take (length p) msg = p)"


text \<open>The ids of a container of Cosmos are strings.\<close>

definition has_str_id :: "dict \<Rightarrow> bool" where
  "has_str_id d = (case map_of d ''id'' of Some (VStr i) \<Rightarrow> True | _ \<Rightarrow> False)"

text \<open>
  The shape of a blob path of the hot tier that is not the fallback path: five segments
  without a slash, the second beginning with a digit, then the id and \<^verbatim>\<open>.json\<close>;
  \<open>after_slash\<close> drops the first segment of a path.
\<close>

definition digit_chars :: "char set" where
  "digit_chars = set ''0123456789''"

definition after_slash :: "string \<Rightarrow> string" where
  "after_slash s = drop 1 (dropWhile (\<lambda>c. c \<noteq> CHR ''/'') s)"

definition normal_path :: "string \<Rightarrow> string \<Rightarrow> bool" where
  "normal_path p i =
     (\<exists>Y M D C. p = ''hot'' @ CHR ''/'' # Y @ CHR ''/'' # M @ CHR ''/'' # D @ CHR ''/'' # C
                      @ CHR ''/'' # i @ ''.json''
        \<and> CHR ''/'' \<notin> set Y \<and> CHR ''/'' \<notin> set M \<and> CHR ''/'' \<notin> set D \<and> CHR ''/'' \<notin> set C
        \<and> Y \<noteq> [] \<and> hd Y \<in> digit_chars)"


section \<open>Example environments and stores\<close>

text \<open>
  A run without failures on 11 April 2025 (day 100 of the example clock): thirty days
  earlier is 12 March, ninety days earlier is 11 January.
\<close>

definition env_ok :: env where
  "env_ok = \<lparr>faults = (\<lambda>n. None), clock = (\<lambda>n. days 100),
             isoformat = (\<lambda>t. if t = days 70 then ''2025-03-12T00:00:00''
                               else if t = days 10 then ''2025-01-11T00:00:00''
                               else ''2025-04-11T00:00:00''),
             fromisoformat = (\<lambda>s. if s = ''2025-03-02T08:00:00'' then Some (2025, 3, 2) else None),
             dumps_len = (\<lambda>v. 120), py_str = (\<lambda>v. ''?'')\<rparr>"

definition ps0 :: performance_stats where
  "ps0 = \<lparr>tier1_hits = 0, tier2_hits = 0, tier3_hits = 0, cache_misses = 0\<rparr>"

definition world_of :: "dict list \<Rightarrow> ((string \<times> string) \<times> blob) list \<Rightarrow> world" where
  "world_of docs bs = \<lparr>cosmos = docs, blobs = map_of bs, log = [], reads = 0\<rparr>"

text \<open>An environment in which every call to a backing store fails.\<close>

definition env_down :: env where
  "env_down = env_ok\<lparr>faults := (\<lambda>n. Some ''ServiceUnavailable'')\<rparr>"

text \<open>
  A container with one record without tier metadata, one with the explicit tier
  \<^verbatim>\<open>'cosmos'\<close> and one migrated to the hot tier.
\<close>

definition mixed_store :: "dict list" where
  "mixed_store =
     [[(''id'', VStr ''r1''), (''customerId'', VStr ''c1'')],
      [(''id'', VStr ''r2''), (''customerId'', VStr ''c1''), (''storage_tier'', VStr ''cosmos'')],
      [(''id'', VStr ''r3''), (''customerId'', VStr ''c2''), (''storage_tier'', VStr ''hot_blob''),
       (''blob_path'', VStr ''hot/2025/01/01/c2/r3.json'')]]"

text \<open>
  The path format in the words of the specification: the characters kept by the
  sanitization are those of \<^verbatim>\<open>[A-Za-z0-9_-]\<close>, every other character becomes \<^verbatim>\<open>_\<close>.
\<close>

definition spec_allowed :: "char \<Rightarrow> bool" where
  "spec_allowed c =
     (let n = (of_char c :: nat)
      in (65 \<le> n \<and> n \<le> 90) \<or> (97 \<le> n \<and> n \<le> 122) \<or> (48 \<le> n \<and> n \<le> 57)
         \<or> c = CHR ''_'' \<or> c = CHR ''-'')"

definition spec_sanitize :: "string \<Rightarrow> string" where
  "spec_sanitize s = map (\<lambda>c. if spec_allowed c then c else CHR ''_'') s"

definition spec_blob_path :: "string \<Rightarrow> nat \<Rightarrow> nat \<Rightarrow> nat \<Rightarrow> string \<Rightarrow> string \<Rightarrow> string" where
  "spec_blob_path tier year month day customer_id i =
     tier @ ''/'' @ show_nat year @ ''/'' @ pad2 month @ ''/'' @ pad2 day @ ''/''
     @ spec_sanitize customer_id @ ''/'' @ i @ ''.json''"

text \<open>A record whose customer id ends in a letter outside ASCII (e with acute, U+00E9).\<close>

definition cafe_record :: dict where
  "cafe_record = [(''id'', VStr ''r1''), (''customerId'', VStr (''caf'' @ [CHR 0xE9])),
                  (''createdAt'', VStr ''2025-03-02T08:00:00'')]"

text \<open>
  The records of the scenarios: created 100, 40, 10 and 50 days before the example
  date; the first has been migrated to the hot tier, the last carries the explicit
  tier \<^verbatim>\<open>'cosmos'\<close>.
\<close>

definition st0 :: transfer_stats where
  "st0 = \<lparr>tier1_to_tier2 = \<lparr>success = 0, failed = 0, errors = []\<rparr>,
          tier2_to_tier3 = \<lparr>success = 0, failed = 0, errors = []\<rparr>,
          total_size_migrated = 0\<rparr>"

definition r100 :: dict where
  "r100 = [(''id'', VStr ''r1''), (''customerId'', VStr ''c1''),
           (''createdAt'', VStr ''2025-01-01T08:00:00''), (''storage_tier'', VStr ''hot_blob''),
           (''blob_path'', VStr ''hot/2025/01/01/c1/r1.json'')]"

definition r40 :: dict where
  "r40 = [(''id'', VStr ''r2''), (''customerId'', VStr ''c1''),
          (''createdAt'', VStr ''2025-03-02T08:00:00'')]"

definition r10 :: dict where
  "r10 = [(''id'', VStr ''r3''), (''customerId'', VStr ''c2''),
          (''createdAt'', VStr ''2025-04-01T08:00:00'')]"

definition r50 :: dict where
  "r50 = [(''id'', VStr ''r4''), (''customerId'', VStr ''c2''),
          (''createdAt'', VStr ''2025-02-20T08:00:00''), (''storage_tier'', VStr ''cosmos'')]"

text \<open>An environment whose k-th call to a backing store fails.\<close>

definition env_fail_at :: "nat \<Rightarrow> env" where
  "env_fail_at k = env_ok\<lparr>faults := (\<lambda>n. if n = k then Some ''ServiceUnavailable'' else None)\<rparr>"


text \<open>
  The store of the scenario: the three records aged 100, 40 and 10 days, and the blob
  of the first in the hot container.
\<close>

definition scenario_world :: world where
  "scenario_world =
     world_of [r100, r40, r10]
       [((''billing-hot'', ''hot/2025/01/01/c1/r1.json''),
         Json (VDict [(''id'', VStr ''r1''), (''customerId'', VStr ''c1''),
                      (''createdAt'', VStr ''2025-01-01T08:00:00'')]))]"

text \<open>The store of the scenario after one run of the first stage.\<close>

definition once_migrated :: world where
  "once_migrated = fst (snd (migrate_tier1_to_tier2 env_ok 10 scenario_world st0))"

lemmas eval_defs = world_of_def env_ok_def ps0_def has_id_def py_get_def blob_calls_def
  hot_container_def cold_container_def


section \<open>Retrieval: the lookup of one record\<close>

lemma find_has_id_nonempty: "find (has_id i) ds = Some r \<Longrightarrow> r \<noteq> []"
  by (auto simp: find_Some_iff has_id_def)

lemma search_cosmos_db_found:
  assumes "faults E (length (log w)) = None" and "find (has_id record_id) (cosmos w) = Some r"
  shows "search_cosmos_db E record_id w = (Some r, w\<lparr>log := log w @ [CosmosRead record_id]\<rparr>)"
  using assms by (simp add: search_cosmos_db_def read_item_def backend_call_def)

lemma miss_after_tier3:
  assumes "py_get r ''storage_tier'' \<noteq> VStr ''cold_blob'' \<or> \<not> truthy (py_get r ''blob_path'')"
  shows "tier3_lookup E (Some r) w ps = miss w ps"
  using assms by (auto simp: tier3_lookup_def search_cold_blob_def truthy_opt_def)

lemma tier2_skips:
  assumes "py_get r ''storage_tier'' \<noteq> VStr ''hot_blob'' \<or> \<not> truthy (py_get r ''blob_path'')"
  shows "tier2_lookup E (Some r) w ps = tier3_lookup E (Some r) w ps"
  using assms by (auto simp: tier2_lookup_def search_hot_blob_def truthy_opt_def)

lemma search_hot_blob_str:
  assumes "p \<noteq> []"
  shows "search_hot_blob E (VStr p) w =
           (case (faults E (length (log w)), blobs w (hot_container, p)) of
              (None, Some (Json v)) \<Rightarrow> Some v
            | _ \<Rightarrow> None,
            w\<lparr>log := log w @ [BlobGet hot_container p]\<rparr>)"
  using assms
  by (simp add: search_hot_blob_def download_json_def backend_call_def
           split: option.splits blob.splits)

text \<open>
  C1. When the read of the primary store succeeds and yields a pointer record whose
  \<^verbatim>\<open>storage_tier\<close> is missing (or null) or is \<^verbatim>\<open>'cosmos'\<close>, \<^verbatim>\<open>get_billing_record\<close> returns
  that very record, tagged \<^verbatim>\<open>'tier1-cosmos'\<close>, counts a tier-1 hit, and the only call it
  makes is the read of the primary store: no call to the blob store is added.
\<close>

theorem C1_get_tier1:
  assumes "faults E (length (log w)) = None"
      and "find (has_id record_id) (cosmos w) = Some r"
      and "py_get r ''storage_tier'' = VNone \<or> py_get r ''storage_tier'' = VStr ''cosmos''"
  shows "get_billing_record E record_id w ps =
           ((Some (VDict r), ''tier1-cosmos''),
            w\<lparr>log := log w @ [CosmosRead record_id]\<rparr>,
            ps\<lparr>tier1_hits := tier1_hits ps + 1\<rparr>)
         \<and> blob_calls (fst (snd (get_billing_record E record_id w ps))) = blob_calls w"
proof -
  have ne: "r \<noteq> []" using assms(2) by (rule find_has_id_nonempty)
  have g: "get_billing_record E record_id w ps =
           ((Some (VDict r), ''tier1-cosmos''),
            w\<lparr>log := log w @ [CosmosRead record_id]\<rparr>,
            ps\<lparr>tier1_hits := tier1_hits ps + 1\<rparr>)"
    using assms(3) ne
    by (simp add: get_billing_record_def search_cosmos_db_found[OF assms(1,2)] is_record_in_tier1_def)
  show ?thesis by (simp add: g blob_calls_def)
qed

text \<open>The theorem at a store of two records, the second without tier metadata.\<close>

theorem C1_witness:
  "get_billing_record env_ok ''r2''
     (world_of [[(''id'', VStr ''r1''), (''storage_tier'', VStr ''cosmos'')],
                [(''id'', VStr ''r2''), (''customerId'', VStr ''c1'')]] []) ps0
   = ((Some (VDict [(''id'', VStr ''r2''), (''customerId'', VStr ''c1'')]), ''tier1-cosmos''),
      (world_of [[(''id'', VStr ''r1''), (''storage_tier'', VStr ''cosmos'')],
                [(''id'', VStr ''r2''), (''customerId'', VStr ''c1'')]] [])\<lparr>log := [CosmosRead ''r2'']\<rparr>,
      ps0\<lparr>tier1_hits := 1\<rparr>)"
  using C1_get_tier1 [of env_ok "world_of [[(''id'', VStr ''r1''), (''storage_tier'', VStr ''cosmos'')],
                [(''id'', VStr ''r2''), (''customerId'', VStr ''c1'')]] []" "''r2''"
                "[(''id'', VStr ''r2''), (''customerId'', VStr ''c1'')]" ps0]
  by (simp add: eval_defs)

text \<open>
  C2, as the code has it, for a pointer record whose \<^verbatim>\<open>storage_tier\<close> is \<^verbatim>\<open>'hot_blob'\<close>.
  When its \<^verbatim>\<open>blob_path\<close> is a non-empty string, \<^verbatim>\<open>get_billing_record\<close> makes exactly one
  download, of that path from the hot container. If the download succeeds and the
  decoded content is true in Python's sense (a record with at least one field), that
  content is returned tagged \<^verbatim>\<open>'tier2-hot'\<close>. In every other case (the call fails, the
  blob is missing or does not decode, or the content is empty) the result is
  \<^verbatim>\<open>None\<close> with \<^verbatim>\<open>'not-found'\<close> and a miss is counted: the pointer record is never returned.
  When its \<^verbatim>\<open>blob_path\<close> is missing, \<^verbatim>\<open>None\<close> or the empty string, no download is made (the
  only call is the read of the primary store), the result is \<^verbatim>\<open>None\<close> with
  \<^verbatim>\<open>'not-found'\<close> and a miss is counted.
\<close>

theorem C2_get_tier2_amended:
  assumes "faults E (length (log w)) = None"
      and "find (has_id record_id) (cosmos w) = Some r"
      and "py_get r ''storage_tier'' = VStr ''hot_blob''"
  shows "(py_get r ''blob_path'' = VStr p \<and> p \<noteq> [] \<longrightarrow>
          get_billing_record E record_id w ps =
           (case (faults E (Suc (length (log w))), blobs w (hot_container, p)) of
              (None, Some (Json v)) \<Rightarrow>
                (if truthy v
                 then ((Some v, ''tier2-hot''),
                       w\<lparr>log := log w @ [CosmosRead record_id, BlobGet hot_container p]\<rparr>,
                       ps\<lparr>tier2_hits := tier2_hits ps + 1\<rparr>)
                 else ((None, ''not-found''),
                       w\<lparr>log := log w @ [CosmosRead record_id, BlobGet hot_container p]\<rparr>,
                       ps\<lparr>cache_misses := cache_misses ps + 1\<rparr>))
            | _ \<Rightarrow>
                ((None, ''not-found''),
                 w\<lparr>log := log w @ [CosmosRead record_id, BlobGet hot_container p]\<rparr>,
                 ps\<lparr>cache_misses := cache_misses ps + 1\<rparr>)))
         \<and> (py_get r ''blob_path'' = VNone \<or> py_get r ''blob_path'' = VStr [] \<longrightarrow>
              get_billing_record E record_id w ps =
                ((None, ''not-found''),
                 w\<lparr>log := log w @ [CosmosRead record_id]\<rparr>,
                 ps\<lparr>cache_misses := cache_misses ps + 1\<rparr>)
              \<and> blob_calls (fst (snd (get_billing_record E record_id w ps))) = blob_calls w)"
proof (intro conjI impI)
  let ?w1 = "w\<lparr>log := log w @ [CosmosRead record_id]\<rparr>"
  have ne: "r \<noteq> []" using assms(2) by (rule find_has_id_nonempty)
  have nt1: "\<not> is_record_in_tier1 r"
    using assms(3) by (simp add: is_record_in_tier1_def)
  have t3: "tier3_lookup E (Some r) w' ps = miss w' ps" for w'
    using assms(3) by (simp add: miss_after_tier3)
  have g: "get_billing_record E record_id w ps = tier2_lookup E (Some r) ?w1 ps"
    using nt1 by (simp add: get_billing_record_def search_cosmos_db_found[OF assms(1,2)])
  {
    assume bp: "py_get r ''blob_path'' = VStr p \<and> p \<noteq> []"
    then have p: "p \<noteq> []" and b: "py_get r ''blob_path'' = VStr p" by simp_all
    show "get_billing_record E record_id w ps =
           (case (faults E (Suc (length (log w))), blobs w (hot_container, p)) of
              (None, Some (Json v)) \<Rightarrow>
                (if truthy v
                 then ((Some v, ''tier2-hot''),
                       w\<lparr>log := log w @ [CosmosRead record_id, BlobGet hot_container p]\<rparr>,
                       ps\<lparr>tier2_hits := tier2_hits ps + 1\<rparr>)
                 else ((None, ''not-found''),
                       w\<lparr>log := log w @ [CosmosRead record_id, BlobGet hot_container p]\<rparr>,
                       ps\<lparr>cache_misses := cache_misses ps + 1\<rparr>))
            | _ \<Rightarrow>
                ((None, ''not-found''),
                 w\<lparr>log := log w @ [CosmosRead record_id, BlobGet hot_container p]\<rparr>,
                 ps\<lparr>cache_misses := cache_misses ps + 1\<rparr>))"
      unfolding g
      using ne assms(3) b
      by (simp add: tier2_lookup_def search_hot_blob_str[OF p] t3 miss_def truthy_opt_def
               split: option.splits blob.splits)
  }
  {
    assume "py_get r ''blob_path'' = VNone \<or> py_get r ''blob_path'' = VStr []"
    then have "\<not> truthy (py_get r ''blob_path'')" by auto
    then have "tier2_lookup E (Some r) ?w1 ps = miss ?w1 ps"
      by (simp add: tier2_skips t3)
    then have res: "get_billing_record E record_id w ps =
                ((None, ''not-found''), ?w1, ps\<lparr>cache_misses := cache_misses ps + 1\<rparr>)"
      by (simp add: g miss_def)
    show "get_billing_record E record_id w ps =
                ((None, ''not-found''), ?w1, ps\<lparr>cache_misses := cache_misses ps + 1\<rparr>)"
      by (rule res)
    show "blob_calls (fst (snd (get_billing_record E record_id w ps))) = blob_calls w"
      by (simp add: res blob_calls_def)
  }
qed

text \<open>
  The theorem at a migrated record whose blob is in the hot container, at the same
  record when the blob is missing, and at pointers whose \<^verbatim>\<open>blob_path\<close> is empty or missing.
\<close>

theorem C2_witness:
  "get_billing_record env_ok ''r1''
     (world_of [[(''id'', VStr ''r1''), (''storage_tier'', VStr ''hot_blob''),
                 (''blob_path'', VStr ''hot/2025/01/01/c1/r1.json'')]]
               [((''billing-hot'', ''hot/2025/01/01/c1/r1.json''),
                 Json (VDict [(''id'', VStr ''r1''), (''amount'', VInt 5)]))]) ps0
   = ((Some (VDict [(''id'', VStr ''r1''), (''amount'', VInt 5)]), ''tier2-hot''),
      (world_of [[(''id'', VStr ''r1''), (''storage_tier'', VStr ''hot_blob''),
                 (''blob_path'', VStr ''hot/2025/01/01/c1/r1.json'')]]
               [((''billing-hot'', ''hot/2025/01/01/c1/r1.json''),
                 Json (VDict [(''id'', VStr ''r1''), (''amount'', VInt 5)]))])
        \<lparr>log := [CosmosRead ''r1'', BlobGet ''billing-hot'' ''hot/2025/01/01/c1/r1.json'']\<rparr>,
      ps0\<lparr>tier2_hits := 1\<rparr>)
   \<and> get_billing_record env_ok ''r1''
     (world_of [[(''id'', VStr ''r1''), (''storage_tier'', VStr ''hot_blob''),
                 (''blob_path'', VStr ''hot/2025/01/01/c1/r1.json'')]] []) ps0
   = ((None, ''not-found''),
      (world_of [[(''id'', VStr ''r1''), (''storage_tier'', VStr ''hot_blob''),
                 (''blob_path'', VStr ''hot/2025/01/01/c1/r1.json'')]] [])
        \<lparr>log := [CosmosRead ''r1'', BlobGet ''billing-hot'' ''hot/2025/01/01/c1/r1.json'']\<rparr>,
      ps0\<lparr>cache_misses := 1\<rparr>)
   \<and> get_billing_record env_ok ''r1''
     (world_of [[(''id'', VStr ''r1''), (''storage_tier'', VStr ''hot_blob''),
                 (''blob_path'', VStr '''')]] []) ps0
   = ((None, ''not-found''),
      (world_of [[(''id'', VStr ''r1''), (''storage_tier'', VStr ''hot_blob''),
                 (''blob_path'', VStr '''')]] [])\<lparr>log := [CosmosRead ''r1'']\<rparr>,
      ps0\<lparr>cache_misses := 1\<rparr>)
   \<and> blob_calls (fst (snd (get_billing_record env_ok ''r2''
        (world_of [[(''id'', VStr ''r2''), (''storage_tier'', VStr ''hot_blob'')]] []) ps0))) = []"
  using C2_get_tier2_amended [where E = env_ok and record_id = "''r1''" and ps = ps0
       and w = "world_of [[(''id'', VStr ''r1''), (''storage_tier'', VStr ''hot_blob''),
                 (''blob_path'', VStr ''hot/2025/01/01/c1/r1.json'')]]
               [((''billing-hot'', ''hot/2025/01/01/c1/r1.json''),
                 Json (VDict [(''id'', VStr ''r1''), (''amount'', VInt 5)]))]"
       and r = "[(''id'', VStr ''r1''), (''storage_tier'', VStr ''hot_blob''),
                 (''blob_path'', VStr ''hot/2025/01/01/c1/r1.json'')]"
       and p = "''hot/2025/01/01/c1/r1.json''"]
    C2_get_tier2_amended [where E = env_ok and record_id = "''r1''" and ps = ps0
       and w = "world_of [[(''id'', VStr ''r1''), (''storage_tier'', VStr ''hot_blob''),
                 (''blob_path'', VStr ''hot/2025/01/01/c1/r1.json'')]] []"
       and r = "[(''id'', VStr ''r1''), (''storage_tier'', VStr ''hot_blob''),
                 (''blob_path'', VStr ''hot/2025/01/01/c1/r1.json'')]"
       and p = "''hot/2025/01/01/c1/r1.json''"]
    C2_get_tier2_amended [where E = env_ok and record_id = "''r1''" and ps = ps0
       and w = "world_of [[(''id'', VStr ''r1''), (''storage_tier'', VStr ''hot_blob''),
                 (''blob_path'', VStr '''')]] []"
       and r = "[(''id'', VStr ''r1''), (''storage_tier'', VStr ''hot_blob''),
                 (''blob_path'', VStr '''')]"
       and p = "''x''"]
    C2_get_tier2_amended [where E = env_ok and record_id = "''r2''" and ps = ps0
       and w = "world_of [[(''id'', VStr ''r2''), (''storage_tier'', VStr ''hot_blob'')]] []"
       and r = "[(''id'', VStr ''r2''), (''storage_tier'', VStr ''hot_blob'')]"
       and p = "''x''"]
  by (simp add: eval_defs)

text \<open>
  C2 as stated fails at two pointers whose \<^verbatim>\<open>storage_tier\<close> is \<^verbatim>\<open>'hot_blob'\<close>. For the
  first, which has no \<^verbatim>\<open>blob_path\<close>, no call to the blob store is made at all. For the
  second, the blob at its \<^verbatim>\<open>blob_path\<close> exists and decodes (to the empty object) and no
  call fails, yet the lookup answers \<^verbatim>\<open>'not-found'\<close> instead of the blob's content.
\<close>

theorem C2_counterexample:
  "blob_calls (fst (snd (get_billing_record env_ok ''r1''
      (world_of [[(''id'', VStr ''r1''), (''storage_tier'', VStr ''hot_blob'')]] []) ps0))) = []
   \<and> blobs (world_of [[(''id'', VStr ''r2''), (''storage_tier'', VStr ''hot_blob''),
                        (''blob_path'', VStr ''p'')]]
                      [((''billing-hot'', ''p''), Json (VDict []))]) (hot_container, ''p'')
       = Some (Json (VDict []))
   \<and> fst (get_billing_record env_ok ''r2''
        (world_of [[(''id'', VStr ''r2''), (''storage_tier'', VStr ''hot_blob''),
                    (''blob_path'', VStr ''p'')]]
                  [((''billing-hot'', ''p''), Json (VDict []))]) ps0)
       = (None, ''not-found'')"
  by (simp add: eval_defs get_billing_record_def search_cosmos_db_def read_item_def
        backend_call_def is_record_in_tier1_def tier2_lookup_def tier3_lookup_def
        search_hot_blob_def download_json_def miss_def truthy_opt_def)

text \<open>
  C10. When the read of the primary store succeeds and yields a pointer record whose
  \<^verbatim>\<open>storage_tier\<close> is neither missing, nor \<^verbatim>\<open>'cosmos'\<close>, nor \<^verbatim>\<open>'hot_blob'\<close>, nor
  \<^verbatim>\<open>'cold_blob'\<close>, or is one of the two blob tiers while \<^verbatim>\<open>blob_path\<close> is missing or
  empty, \<^verbatim>\<open>get_billing_record\<close> returns \<^verbatim>\<open>None\<close> with \<^verbatim>\<open>'not-found'\<close> and adds one to the
  miss counter, although the record is in the primary store.
\<close>

theorem C10_get_unresolvable:
  assumes "faults E (length (log w)) = None"
      and "find (has_id record_id) (cosmos w) = Some r"
      and "(py_get r ''storage_tier'' \<noteq> VNone \<and> py_get r ''storage_tier'' \<noteq> VStr ''cosmos''
            \<and> py_get r ''storage_tier'' \<noteq> VStr ''hot_blob''
            \<and> py_get r ''storage_tier'' \<noteq> VStr ''cold_blob'')
           \<or> ((py_get r ''storage_tier'' = VStr ''hot_blob'' \<or> py_get r ''storage_tier'' = VStr ''cold_blob'')
              \<and> (py_get r ''blob_path'' = VNone \<or> py_get r ''blob_path'' = VStr []))"
  shows "get_billing_record E record_id w ps =
           ((None, ''not-found''),
            w\<lparr>log := log w @ [CosmosRead record_id]\<rparr>,
            ps\<lparr>cache_misses := cache_misses ps + 1\<rparr>)"
proof -
  let ?w1 = "w\<lparr>log := log w @ [CosmosRead record_id]\<rparr>"
  have nt1: "\<not> is_record_in_tier1 r"
    using assms(3) by (auto simp: is_record_in_tier1_def)
  have "\<not> truthy (py_get r ''blob_path'') \<or>
        (py_get r ''storage_tier'' \<noteq> VStr ''hot_blob'' \<and> py_get r ''storage_tier'' \<noteq> VStr ''cold_blob'')"
    using assms(3) by auto
  then have t2: "tier2_lookup E (Some r) ?w1 ps = miss ?w1 ps"
    by (metis tier2_skips miss_after_tier3)
  show ?thesis
    using nt1 t2
    by (simp add: get_billing_record_def search_cosmos_db_found[OF assms(1,2)] miss_def)
qed

text \<open>
  The theorem at a record of an unknown tier, and at a record of the hot tier that has
  no \<^verbatim>\<open>blob_path\<close>.
\<close>

theorem C10_witness:
  "fst (get_billing_record env_ok ''r1''
     (world_of [[(''id'', VStr ''r1''), (''storage_tier'', VStr ''archive'')]] []) ps0)
   = (None, ''not-found'')
   \<and> cache_misses (snd (snd (get_billing_record env_ok ''r2''
     (world_of [[(''id'', VStr ''r2''), (''storage_tier'', VStr ''hot_blob'')]] []) ps0))) = 1"
  using C10_get_unresolvable [of env_ok "world_of [[(''id'', VStr ''r1''), (''storage_tier'', VStr ''archive'')]] []"
           "''r1''" "[(''id'', VStr ''r1''), (''storage_tier'', VStr ''archive'')]" ps0]
        C10_get_unresolvable [of env_ok "world_of [[(''id'', VStr ''r2''), (''storage_tier'', VStr ''hot_blob'')]] []"
           "''r2''" "[(''id'', VStr ''r2''), (''storage_tier'', VStr ''hot_blob'')]" ps0]
  by (simp add: eval_defs)

section \<open>Retrieval: statistics and queries by customer\<close>

text \<open>
  C8, at a container that holds two records of the primary tier (one without
  \<^verbatim>\<open>storage_tier\<close>, one with the explicit value \<^verbatim>\<open>'cosmos'\<close>) and one record of the hot
  tier. The aggregation yields one row for the missing value and one for \<^verbatim>\<open>'cosmos'\<close>;
  both rows select the bucket \<^verbatim>\<open>tier1_cosmos\<close>, which is assigned, not added to, so the
  second row overwrites the first: the count of tier 1 is 1 where the container has
  2 such records, while the total is 3.
\<close>

theorem C8_statistics_overwrite:
  "fst (get_storage_statistics env_ok (world_of mixed_store []) ps0)
   = Inr \<lparr>tier1_cosmos = VInt 1, tier2_hot_blob = VInt 1, tier3_cold_blob = VInt 0,
          total_records = 3, performance_total_requests = 0\<rparr>"
  by (simp add: get_storage_statistics_def query_items_def backend_call_def eval_defs
        mixed_store_def group_by_tier_def group_row_def list_of_pages_def
        get_performance_stats_def py_get_default_def Let_def)

text \<open>
  C9, as the code has it. When the query against the primary store fails,
  \<^verbatim>\<open>get_records_by_customer\<close> returns the empty list and \<^verbatim>\<open>get_storage_statistics\<close>
  returns the counts it started from (all zero) with the performance snapshot: the
  handler of each function catches the failure, and nothing reaches the caller.
\<close>

theorem C9_query_failure_swallowed:
  assumes "faults E (length (log w)) = Some m"
  shows "get_records_by_customer E customer_id limit w
           = (Inr [], w\<lparr>log := log w @ [CosmosQuery]\<rparr>)
         \<and> get_storage_statistics E w ps
           = (Inr \<lparr>tier1_cosmos = VInt 0, tier2_hot_blob = VInt 0, tier3_cold_blob = VInt 0,
                   total_records = 0, performance_total_requests = get_performance_stats ps\<rparr>,
              w\<lparr>log := log w @ [CosmosQuery]\<rparr>)"
  using assms
  by (simp add: get_records_by_customer_def get_storage_statistics_def query_items_def
        backend_call_def)

text \<open>The theorem at a backend that is unreachable.\<close>

theorem C9_witness:
  "get_records_by_customer env_down (VStr ''c1'') 100 (world_of mixed_store [])
     = (Inr [], (world_of mixed_store [])\<lparr>log := [CosmosQuery]\<rparr>)
   \<and> get_storage_statistics env_down (world_of mixed_store []) ps0
     = (Inr \<lparr>tier1_cosmos = VInt 0, tier2_hot_blob = VInt 0, tier3_cold_blob = VInt 0,
             total_records = 0, performance_total_requests = 0\<rparr>,
        (world_of mixed_store [])\<lparr>log := [CosmosQuery]\<rparr>)"
  using C9_query_failure_swallowed [of env_down "world_of mixed_store []" "''ServiceUnavailable''"
          "VStr ''c1''" 100 ps0]
  by (simp add: env_down_def eval_defs get_performance_stats_def)

text \<open>
  C9 as stated fails: with the query of the primary store failing, neither function
  raises; each returns a value.
\<close>

theorem C9_counterexample:
  "faults env_down (length (log (world_of mixed_store []))) = Some ''ServiceUnavailable''
   \<and> fst (get_records_by_customer env_down (VStr ''c1'') 100 (world_of mixed_store [])) = Inr []
   \<and> fst (get_storage_statistics env_down (world_of mixed_store []) ps0)
       = Inr \<lparr>tier1_cosmos = VInt 0, tier2_hot_blob = VInt 0, tier3_cold_blob = VInt 0,
              total_records = 0, performance_total_requests = 0\<rparr>"
  by (simp add: get_records_by_customer_def get_storage_statistics_def query_items_def
        backend_call_def env_down_def eval_defs get_performance_stats_def)

section \<open>Migration: blob paths\<close>

lemma sanitize_ascii:
  assumes "(of_char c :: nat) < 128"
  shows "sanitize_char c = (if spec_allowed c then c else CHR ''_'')"
  using assms by (auto simp: sanitize_char_def spec_allowed_def isalnum_def Let_def)

lemma generate_blob_path_wellformed:
  assumes "map_of d ''createdAt'' = Some (VStr s)"
      and "fromisoformat E (replace_Z s) = Some (year, month, day)"
      and "map_of d ''customerId'' = Some (VStr c)"
      and "map_of d ''id'' = Some (VStr i)"
  shows "generate_blob_path E (VDict d) tier =
           Inr (tier @ ''/'' @ show_nat year @ ''/'' @ pad2 month @ ''/'' @ pad2 day @ ''/''
                @ map sanitize_char c @ ''/'' @ i @ ''.json'')"
  using assms
  by (simp add: generate_blob_path_def blob_path_try_def py_index_def py_get_default_def
        format_val_def)

text \<open>
  C6, as the code has it. For a record whose \<^verbatim>\<open>createdAt\<close> is a string that parses to
  a date, and whose customer id and id are strings, \<^verbatim>\<open>_generate_blob_path\<close> returns
  \<^verbatim>\<open>{tier}/{year}/{month:02}/{day:02}/{sanitized_customer_id}/{id}.json\<close>, a function of
  the tier, the date, the customer id and the id alone. The sanitization replaces by
  \<^verbatim>\<open>_\<close> every character that is neither alphanumeric in Python's sense nor \<^verbatim>\<open>_\<close> nor
  \<^verbatim>\<open>-\<close>; on a customer id of ASCII characters these are exactly the characters outside
  \<^verbatim>\<open>[A-Za-z0-9_-]\<close>, and the path is the one of the specification. The customer id
  \<^verbatim>\<open>cust/1 2\<close> becomes \<^verbatim>\<open>cust_1_2\<close>.
\<close>

theorem C6_blob_path_amended:
  assumes "map_of d ''createdAt'' = Some (VStr s)"
      and "fromisoformat E (replace_Z s) = Some (year, month, day)"
      and "map_of d ''customerId'' = Some (VStr c)"
      and "map_of d ''id'' = Some (VStr i)"
  shows "generate_blob_path E (VDict d) tier =
           Inr (tier @ ''/'' @ show_nat year @ ''/'' @ pad2 month @ ''/'' @ pad2 day @ ''/''
                @ map sanitize_char c @ ''/'' @ i @ ''.json'')
         \<and> map sanitize_char c
             = map (\<lambda>x. if isalnum x \<or> x = CHR ''_'' \<or> x = CHR ''-'' then x else CHR ''_'') c
         \<and> ((\<forall>x \<in> set c. (of_char x :: nat) < 128) \<longrightarrow>
              generate_blob_path E (VDict d) tier
                = Inr (spec_blob_path tier year month day c i))
         \<and> map sanitize_char ''cust/1 2'' = ''cust_1_2''"
proof -
  have a: "generate_blob_path E (VDict d) tier =
           Inr (tier @ ''/'' @ show_nat year @ ''/'' @ pad2 month @ ''/'' @ pad2 day @ ''/''
                @ map sanitize_char c @ ''/'' @ i @ ''.json'')"
    using assms by (rule generate_blob_path_wellformed)
  have b: "map sanitize_char c
             = map (\<lambda>x. if isalnum x \<or> x = CHR ''_'' \<or> x = CHR ''-'' then x else CHR ''_'') c"
    by (simp add: sanitize_char_def)
  have c: "(\<forall>x \<in> set c. (of_char x :: nat) < 128) \<longrightarrow>
              generate_blob_path E (VDict d) tier
                = Inr (spec_blob_path tier year month day c i)"
    by (simp add: a spec_blob_path_def spec_sanitize_def sanitize_ascii)
  have d: "map sanitize_char ''cust/1 2'' = ''cust_1_2''"
    by (simp add: sanitize_char_def isalnum_def)
  from a b c d show ?thesis by blast
qed

text \<open>The theorem at a record of customer \<^verbatim>\<open>cust/1 2\<close> created on 2 March 2025.\<close>

theorem C6_witness:
  "generate_blob_path env_ok
     (VDict [(''id'', VStr ''r1''), (''customerId'', VStr ''cust/1 2''),
             (''createdAt'', VStr ''2025-03-02T08:00:00'')]) ''hot''
   = Inr ''hot/2025/03/02/cust_1_2/r1.json''"
  using C6_blob_path_amended [of "[(''id'', VStr ''r1''), (''customerId'', VStr ''cust/1 2''),
             (''createdAt'', VStr ''2025-03-02T08:00:00'')]" "''2025-03-02T08:00:00''" env_ok
             2025 3 2 "''cust/1 2''" "''r1''" "''hot''"]
  by (simp add: env_ok_def replace_Z_def show_nat.simps digit_char_def pad2_def
        sanitize_char_def isalnum_def spec_blob_path_def)

text \<open>
  C6 as stated fails at a customer id with a letter outside ASCII: the code keeps
  the letter, where the format of the specification has \<^verbatim>\<open>_\<close> in its place.
\<close>

theorem C6_counterexample:
  "generate_blob_path env_ok (VDict cafe_record) ''hot''
     = Inr (''hot/2025/03/02/caf'' @ [CHR 0xE9] @ ''/r1.json'')
   \<and> spec_blob_path ''hot'' 2025 3 2 (''caf'' @ [CHR 0xE9]) ''r1'' = ''hot/2025/03/02/caf_/r1.json''"
  by (simp add: generate_blob_path_def blob_path_try_def py_index_def py_get_default_def
        format_val_def cafe_record_def env_ok_def replace_Z_def show_nat.simps digit_char_def
        pad2_def sanitize_char_def isalnum_def spec_blob_path_def spec_sanitize_def
        spec_allowed_def)

section \<open>Migration: one record\<close>

lemma generate_blob_path_has_id:
  assumes "generate_blob_path E (VDict d) tier = Inr p"
  shows "\<exists>i. map_of d ''id'' = Some i"
  using assms
  by (auto simp: generate_blob_path_def blob_path_try_def blob_path_fallback_def py_index_def
           split: sum.splits option.splits val.splits prod.splits)

lemma store_in_blob_dict:
  assumes "map_of d ''id'' = Some i"
  shows "store_in_blob E (VDict d) c p w =
           (case faults E (length (log w)) of
              Some m \<Rightarrow> (Inl (ServiceError m),
                         w\<lparr>reads := Suc (reads w), log := log w @ [BlobPut c p]\<rparr>)
            | None \<Rightarrow> (Inr (dumps_len E (VDict d)),
                       w\<lparr>reads := Suc (reads w), log := log w @ [BlobPut c p],
                          blobs := (blobs w)((c, p) \<mapsto> Json (VDict d))\<rparr>))"
  using assms
  by (simp add: store_in_blob_def py_index_def utcnow_def backend_call_def Let_def
           split: option.splits)

lemma mark_migrated_id [simp]:
  "stamp_key \<noteq> ''id'' \<Longrightarrow> map_of (mark_migrated t p stamp_key stamp n item) ''id'' = map_of item ''id''"
  by (simp add: mark_migrated_def update_conv)


lemma migrate_item_tier1_changes:
  assumes ch: "cosmos (snd (migrate_item_tier1 E item w)) \<noteq> cosmos w"
  shows "\<exists>p i. generate_blob_path E (VDict item) ''hot'' = Inr p
           \<and> map_of item ''id'' = Some (VStr i)
           \<and> faults E (length (log w)) = None
           \<and> snd (migrate_item_tier1 E item w) =
               w\<lparr>reads := Suc (Suc (reads w)),
                  log := log w @ [BlobPut hot_container p, CosmosReplace i],
                  blobs := (blobs w)((hot_container, p) \<mapsto> Json (VDict item)),
                  cosmos := map (\<lambda>d. if has_id i d
                                    then mark_migrated ''hot_blob'' p ''migrated_to_hot_at''
                                           (isoformat E (clock E (Suc (reads w))))
                                           (dumps_len E (VDict item)) item
                                    else d) (cosmos w)\<rparr>"
proof -
  from ch obtain p where g: "generate_blob_path E (VDict item) ''hot'' = Inr p"
    by (cases "generate_blob_path E (VDict item) ''hot''") (auto simp: migrate_item_tier1_def)
  from generate_blob_path_has_id[OF g] obtain iv where iv: "map_of item ''id'' = Some iv" ..
  have f: "faults E (length (log w)) = None"
    using ch by (cases "faults E (length (log w))")
      (auto simp: migrate_item_tier1_def g store_in_blob_dict[OF iv])
  obtain i where i: "iv = VStr i"
    using ch
    by (cases iv) (auto simp: migrate_item_tier1_def g store_in_blob_dict[OF iv] f utcnow_def
          replace_by_own_id_def py_index_def iv)
  have f2: "faults E (Suc (length (log w))) = None"
    using ch
    by (cases "faults E (Suc (length (log w)))")
       (auto simp: migrate_item_tier1_def g store_in_blob_dict[OF iv] f utcnow_def
          replace_by_own_id_def py_index_def iv i replace_item_def backend_call_def)
  have ex: "list_ex (has_id i) (cosmos w)"
    using ch
    by (cases "list_ex (has_id i) (cosmos w)")
       (auto simp: migrate_item_tier1_def g store_in_blob_dict[OF iv] f f2 utcnow_def
          replace_by_own_id_def py_index_def iv i replace_item_def backend_call_def)
  have res: "snd (migrate_item_tier1 E item w) =
     w\<lparr>reads := Suc (Suc (reads w)),
        log := log w @ [BlobPut hot_container p, CosmosReplace i],
        blobs := (blobs w)((hot_container, p) \<mapsto> Json (VDict item)),
        cosmos := map (\<lambda>d. if has_id i d
                          then mark_migrated ''hot_blob'' p ''migrated_to_hot_at''
                                 (isoformat E (clock E (Suc (reads w))))
                                 (dumps_len E (VDict item)) item
                          else d) (cosmos w)\<rparr>"
    using ex
    by (simp add: migrate_item_tier1_def g store_in_blob_dict[OF iv] f f2 utcnow_def
          replace_by_own_id_def py_index_def iv i replace_item_def backend_call_def)
  show ?thesis
    using g iv i f res by blast
qed




section \<open>Migration: a stage\<close>

lemma concat_pages_of: "concat (pages_of k xs) = xs"
  by (induction k xs rule: pages_of.induct) simp_all

lemma list_of_pages_paged: "list_of_pages (paged n xs) = xs"
  by (induction n xs rule: paged.induct) (simp_all add: list_of_pages_def concat_pages_of)

lemma migrate_tier1_unfold:
  "migrate_tier1_to_tier2 E n w st =
     (case faults E (length (log w)) of
        Some m \<Rightarrow> (Inl (ServiceError m), w\<lparr>reads := Suc (Suc (reads w)), log := log w @ [CosmosQuery]\<rparr>, st)
      | None \<Rightarrow> (Inr (), tier1_loop E (tier1_selected E w)
                           (w\<lparr>reads := Suc (Suc (reads w)), log := log w @ [CosmosQuery]\<rparr>) st))"
  by (simp add: migrate_tier1_to_tier2_def utcnow_def query_items_def backend_call_def
        list_of_pages_paged tier1_selected_def Let_def split: option.splits prod.splits)

lemma migrate_tier2_unfold:
  "migrate_tier2_to_tier3 E n w st =
     (case faults E (length (log w)) of
        Some m \<Rightarrow> (Inl (ServiceError m), w\<lparr>reads := Suc (reads w), log := log w @ [CosmosQuery]\<rparr>, st)
      | None \<Rightarrow> (Inr (), tier2_loop E (tier2_selected E w)
                           (w\<lparr>reads := Suc (reads w), log := log w @ [CosmosQuery]\<rparr>) st))"
  by (simp add: migrate_tier2_to_tier3_def utcnow_def query_items_def backend_call_def
        list_of_pages_paged tier2_selected_def Let_def split: option.splits prod.splits)

lemma names_record_error_msg: "names_record E item (error_msg E item e)"
  by (simp add: names_record_def error_msg_def Let_def)

lemma tier1_loop_accounting:
  assumes "tier1_loop E items w st = (w', st')"
  shows "success (tier1_to_tier2 st') + failed (tier1_to_tier2 st')
           = success (tier1_to_tier2 st) + failed (tier1_to_tier2 st) + length items
         \<and> failed (tier1_to_tier2 st) \<le> failed (tier1_to_tier2 st')
         \<and> length (errors (tier1_to_tier2 st'))
             = length (errors (tier1_to_tier2 st))
               + (failed (tier1_to_tier2 st') - failed (tier1_to_tier2 st))
         \<and> take (length (errors (tier1_to_tier2 st))) (errors (tier1_to_tier2 st'))
             = errors (tier1_to_tier2 st)
         \<and> list_all (\<lambda>msg. list_ex (\<lambda>item. names_record E item msg) items)
             (drop (length (errors (tier1_to_tier2 st))) (errors (tier1_to_tier2 st')))"
  using assms
proof (induction items arbitrary: w st)
  case Nil
  then show ?case by simp
next
  case (Cons item items)
  obtain r w1 where step: "migrate_item_tier1 E item w = (r, w1)" by (cases "migrate_item_tier1 E item w")
  show ?case
  proof (cases r)
    case (Inr blob_size)
    let ?st1 = "st\<lparr>tier1_to_tier2 := count_success (tier1_to_tier2 st),
                    total_size_migrated := total_size_migrated st + blob_size\<rparr>"
    have "tier1_loop E items w1 ?st1 = (w', st')"
      using Cons.prems step Inr by simp
    from Cons.IH[OF this] show ?thesis
      by (auto simp: count_success_def list_all_iff list_ex_iff)
  next
    case (Inl e)
    let ?st1 = "st\<lparr>tier1_to_tier2 := count_failed (error_msg E item e) (tier1_to_tier2 st)\<rparr>"
    have "tier1_loop E items w1 ?st1 = (w', st')"
      using Cons.prems step Inl by simp
    from Cons.IH[OF this]
    have ih: "success (tier1_to_tier2 st') + failed (tier1_to_tier2 st')
                = success (tier1_to_tier2 st) + Suc (failed (tier1_to_tier2 st)) + length items"
      and le: "Suc (failed (tier1_to_tier2 st)) \<le> failed (tier1_to_tier2 st')"
      and len: "length (errors (tier1_to_tier2 st'))
                = Suc (length (errors (tier1_to_tier2 st)))
                  + (failed (tier1_to_tier2 st') - Suc (failed (tier1_to_tier2 st)))"
      and tk: "take (Suc (length (errors (tier1_to_tier2 st)))) (errors (tier1_to_tier2 st'))
                = errors (tier1_to_tier2 st) @ [error_msg E item e]"
      and al: "list_all (\<lambda>msg. list_ex (\<lambda>item. names_record E item msg) items)
                 (drop (Suc (length (errors (tier1_to_tier2 st)))) (errors (tier1_to_tier2 st')))"
      by (simp_all add: count_failed_def)
    let ?n = "length (errors (tier1_to_tier2 st))"
    let ?es = "errors (tier1_to_tier2 st')"
    have tk0: "take ?n ?es = errors (tier1_to_tier2 st)"
    proof -
      have "take ?n (take (Suc ?n) ?es) = take ?n (errors (tier1_to_tier2 st) @ [error_msg E item e])"
        by (simp only: tk)
      then show ?thesis by (simp add: min_def)
    qed
    have lt: "?n < length ?es" using len by simp
    have nth: "?es ! ?n = error_msg E item e"
    proof -
      have "take (Suc ?n) ?es ! ?n = (errors (tier1_to_tier2 st) @ [error_msg E item e]) ! ?n"
        by (simp only: tk)
      then show ?thesis by simp
    qed
    have dr: "drop ?n ?es = error_msg E item e # drop (Suc ?n) ?es"
      using lt nth by (metis Cons_nth_drop_Suc)
    have al0: "list_all (\<lambda>msg. list_ex (\<lambda>it. names_record E it msg) (item # items)) (drop ?n ?es)"
      using al by (auto simp: dr names_record_error_msg list_all_iff list_ex_iff)
    show ?thesis using ih le len tk0 al0 by simp
  qed
qed

lemma tier2_loop_accounting:
  assumes "tier2_loop E items w st = (w', st')"
  shows "success (tier2_to_tier3 st') + failed (tier2_to_tier3 st')
           = success (tier2_to_tier3 st) + failed (tier2_to_tier3 st) + length items
         \<and> failed (tier2_to_tier3 st) \<le> failed (tier2_to_tier3 st')
         \<and> length (errors (tier2_to_tier3 st'))
             = length (errors (tier2_to_tier3 st))
               + (failed (tier2_to_tier3 st') - failed (tier2_to_tier3 st))
         \<and> take (length (errors (tier2_to_tier3 st))) (errors (tier2_to_tier3 st'))
             = errors (tier2_to_tier3 st)
         \<and> list_all (\<lambda>msg. list_ex (\<lambda>item. names_record E item msg) items)
             (drop (length (errors (tier2_to_tier3 st))) (errors (tier2_to_tier3 st')))"
  using assms
proof (induction items arbitrary: w st)
  case Nil
  then show ?case by simp
next
  case (Cons item items)
  obtain r w1 where step: "migrate_item_tier2 E item w = (r, w1)" by (cases "migrate_item_tier2 E item w")
  show ?case
  proof (cases r)
    case (Inr blob_size)
    let ?st1 = "st\<lparr>tier2_to_tier3 := count_success (tier2_to_tier3 st),
                    total_size_migrated := total_size_migrated st + blob_size\<rparr>"
    have "tier2_loop E items w1 ?st1 = (w', st')"
      using Cons.prems step Inr by simp
    from Cons.IH[OF this] show ?thesis
      by (auto simp: count_success_def list_all_iff list_ex_iff)
  next
    case (Inl e)
    let ?st1 = "st\<lparr>tier2_to_tier3 := count_failed (error_msg E item e) (tier2_to_tier3 st)\<rparr>"
    have "tier2_loop E items w1 ?st1 = (w', st')"
      using Cons.prems step Inl by simp
    from Cons.IH[OF this]
    have ih: "success (tier2_to_tier3 st') + failed (tier2_to_tier3 st')
                = success (tier2_to_tier3 st) + Suc (failed (tier2_to_tier3 st)) + length items"
      and le: "Suc (failed (tier2_to_tier3 st)) \<le> failed (tier2_to_tier3 st')"
      and len: "length (errors (tier2_to_tier3 st'))
                = Suc (length (errors (tier2_to_tier3 st)))
                  + (failed (tier2_to_tier3 st') - Suc (failed (tier2_to_tier3 st)))"
      and tk: "take (Suc (length (errors (tier2_to_tier3 st)))) (errors (tier2_to_tier3 st'))
                = errors (tier2_to_tier3 st) @ [error_msg E item e]"
      and al: "list_all (\<lambda>msg. list_ex (\<lambda>item. names_record E item msg) items)
                 (drop (Suc (length (errors (tier2_to_tier3 st)))) (errors (tier2_to_tier3 st')))"
      by (simp_all add: count_failed_def)
    let ?n = "length (errors (tier2_to_tier3 st))"
    let ?es = "errors (tier2_to_tier3 st')"
    have tk0: "take ?n ?es = errors (tier2_to_tier3 st)"
    proof -
      have "take ?n (take (Suc ?n) ?es) = take ?n (errors (tier2_to_tier3 st) @ [error_msg E item e])"
        by (simp only: tk)
      then show ?thesis by (simp add: min_def)
    qed
    have lt: "?n < length ?es" using len by simp
    have nth: "?es ! ?n = error_msg E item e"
    proof -
      have "take (Suc ?n) ?es ! ?n = (errors (tier2_to_tier3 st) @ [error_msg E item e]) ! ?n"
        by (simp only: tk)
      then show ?thesis by simp
    qed
    have dr: "drop ?n ?es = error_msg E item e # drop (Suc ?n) ?es"
      using lt nth by (metis Cons_nth_drop_Suc)
    have al0: "list_all (\<lambda>msg. list_ex (\<lambda>it. names_record E it msg) (item # items)) (drop ?n ?es)"
      using al by (auto simp: dr names_record_error_msg list_all_iff list_ex_iff)
    show ?thesis using ih le len tk0 al0 by simp
  qed
qed

text \<open>
  C5. Each migration stage raises exactly when its selection query fails. When the
  query succeeds, the stage returns normally with the result of its loop over all the
  selected items. The loop never stops early: over any list of items, successes and
  failures together grow by the number of items, the list of error messages is
  extended by one message per failure, and each new message names a record of the
  batch (\<^verbatim>\<open>Record <id>: ...\<close>). At each record the loop goes on with the remaining
  items: when the migration of the record raises, the failures grow by one and the
  message of this record is appended, the successes being unchanged; when it
  succeeds, the successes grow by one and the size of the blob is added to the total.
\<close>

theorem C5_stage_failures:
  "((\<exists>e. fst (migrate_tier1_to_tier2 E n w st) = Inl e) \<longleftrightarrow> faults E (length (log w)) \<noteq> None)
   \<and> ((\<exists>e. fst (migrate_tier2_to_tier3 E n w st) = Inl e) \<longleftrightarrow> faults E (length (log w)) \<noteq> None)
   \<and> (faults E (length (log w)) = None \<longrightarrow>
        migrate_tier1_to_tier2 E n w st
          = (Inr (), tier1_loop E (tier1_selected E w)
                       (w\<lparr>reads := Suc (Suc (reads w)), log := log w @ [CosmosQuery]\<rparr>) st)
        \<and> migrate_tier2_to_tier3 E n w st
          = (Inr (), tier2_loop E (tier2_selected E w)
                       (w\<lparr>reads := Suc (reads w), log := log w @ [CosmosQuery]\<rparr>) st))
   \<and> (tier1_loop E items v s = (v', s') \<longrightarrow>
        success (tier1_to_tier2 s') + failed (tier1_to_tier2 s')
           = success (tier1_to_tier2 s) + failed (tier1_to_tier2 s) + length items
         \<and> failed (tier1_to_tier2 s) \<le> failed (tier1_to_tier2 s')
         \<and> length (errors (tier1_to_tier2 s'))
             = length (errors (tier1_to_tier2 s))
               + (failed (tier1_to_tier2 s') - failed (tier1_to_tier2 s))
         \<and> take (length (errors (tier1_to_tier2 s))) (errors (tier1_to_tier2 s'))
             = errors (tier1_to_tier2 s)
         \<and> list_all (\<lambda>msg. list_ex (\<lambda>item. names_record E item msg) items)
             (drop (length (errors (tier1_to_tier2 s))) (errors (tier1_to_tier2 s'))))
   \<and> (tier2_loop E items v s = (v', s') \<longrightarrow>
        success (tier2_to_tier3 s') + failed (tier2_to_tier3 s')
           = success (tier2_to_tier3 s) + failed (tier2_to_tier3 s) + length items
         \<and> failed (tier2_to_tier3 s) \<le> failed (tier2_to_tier3 s')
         \<and> length (errors (tier2_to_tier3 s'))
             = length (errors (tier2_to_tier3 s))
               + (failed (tier2_to_tier3 s') - failed (tier2_to_tier3 s))
         \<and> take (length (errors (tier2_to_tier3 s))) (errors (tier2_to_tier3 s'))
             = errors (tier2_to_tier3 s)
         \<and> list_all (\<lambda>msg. list_ex (\<lambda>item. names_record E item msg) items)
             (drop (length (errors (tier2_to_tier3 s))) (errors (tier2_to_tier3 s'))))
   \<and> (fst (migrate_item_tier1 E item v) = Inl e \<longrightarrow>
        tier1_loop E (item # items) v s
          = tier1_loop E items (snd (migrate_item_tier1 E item v))
              (s\<lparr>tier1_to_tier2 :=
                   (tier1_to_tier2 s)\<lparr>failed := failed (tier1_to_tier2 s) + 1,
                                       errors := errors (tier1_to_tier2 s) @ [error_msg E item e]\<rparr>\<rparr>))
   \<and> (fst (migrate_item_tier1 E item v) = Inr sz \<longrightarrow>
        tier1_loop E (item # items) v s
          = tier1_loop E items (snd (migrate_item_tier1 E item v))
              (s\<lparr>tier1_to_tier2 := (tier1_to_tier2 s)\<lparr>success := success (tier1_to_tier2 s) + 1\<rparr>,
                 total_size_migrated := total_size_migrated s + sz\<rparr>))
   \<and> (fst (migrate_item_tier2 E item v) = Inl e \<longrightarrow>
        tier2_loop E (item # items) v s
          = tier2_loop E items (snd (migrate_item_tier2 E item v))
              (s\<lparr>tier2_to_tier3 :=
                   (tier2_to_tier3 s)\<lparr>failed := failed (tier2_to_tier3 s) + 1,
                                       errors := errors (tier2_to_tier3 s) @ [error_msg E item e]\<rparr>\<rparr>))
   \<and> (fst (migrate_item_tier2 E item v) = Inr sz \<longrightarrow>
        tier2_loop E (item # items) v s
          = tier2_loop E items (snd (migrate_item_tier2 E item v))
              (s\<lparr>tier2_to_tier3 := (tier2_to_tier3 s)\<lparr>success := success (tier2_to_tier3 s) + 1\<rparr>,
                 total_size_migrated := total_size_migrated s + sz\<rparr>))"
proof -
  have a: "(\<exists>e. fst (migrate_tier1_to_tier2 E n w st) = Inl e) \<longleftrightarrow> faults E (length (log w)) \<noteq> None"
    by (auto simp: migrate_tier1_unfold split: option.splits)
  have b: "(\<exists>e. fst (migrate_tier2_to_tier3 E n w st) = Inl e) \<longleftrightarrow> faults E (length (log w)) \<noteq> None"
    by (auto simp: migrate_tier2_unfold split: option.splits)
  have c: "faults E (length (log w)) = None \<longrightarrow>
        migrate_tier1_to_tier2 E n w st
          = (Inr (), tier1_loop E (tier1_selected E w)
                       (w\<lparr>reads := Suc (Suc (reads w)), log := log w @ [CosmosQuery]\<rparr>) st)
        \<and> migrate_tier2_to_tier3 E n w st
          = (Inr (), tier2_loop E (tier2_selected E w)
                       (w\<lparr>reads := Suc (reads w), log := log w @ [CosmosQuery]\<rparr>) st)"
    by (simp add: migrate_tier1_unfold migrate_tier2_unfold)
  have d1: "fst (migrate_item_tier1 E item v) = Inl e \<longrightarrow>
        tier1_loop E (item # items) v s
          = tier1_loop E items (snd (migrate_item_tier1 E item v))
              (s\<lparr>tier1_to_tier2 :=
                   (tier1_to_tier2 s)\<lparr>failed := failed (tier1_to_tier2 s) + 1,
                                       errors := errors (tier1_to_tier2 s) @ [error_msg E item e]\<rparr>\<rparr>)"
    by (cases "migrate_item_tier1 E item v") (simp add: count_failed_def)
  have d2: "fst (migrate_item_tier1 E item v) = Inr sz \<longrightarrow>
        tier1_loop E (item # items) v s
          = tier1_loop E items (snd (migrate_item_tier1 E item v))
              (s\<lparr>tier1_to_tier2 := (tier1_to_tier2 s)\<lparr>success := success (tier1_to_tier2 s) + 1\<rparr>,
                 total_size_migrated := total_size_migrated s + sz\<rparr>)"
    by (cases "migrate_item_tier1 E item v") (simp add: count_success_def)
  have d3: "fst (migrate_item_tier2 E item v) = Inl e \<longrightarrow>
        tier2_loop E (item # items) v s
          = tier2_loop E items (snd (migrate_item_tier2 E item v))
              (s\<lparr>tier2_to_tier3 :=
                   (tier2_to_tier3 s)\<lparr>failed := failed (tier2_to_tier3 s) + 1,
                                       errors := errors (tier2_to_tier3 s) @ [error_msg E item e]\<rparr>\<rparr>)"
    by (cases "migrate_item_tier2 E item v") (simp add: count_failed_def)
  have d4: "fst (migrate_item_tier2 E item v) = Inr sz \<longrightarrow>
        tier2_loop E (item # items) v s
          = tier2_loop E items (snd (migrate_item_tier2 E item v))
              (s\<lparr>tier2_to_tier3 := (tier2_to_tier3 s)\<lparr>success := success (tier2_to_tier3 s) + 1\<rparr>,
                 total_size_migrated := total_size_migrated s + sz\<rparr>)"
    by (cases "migrate_item_tier2 E item v") (simp add: count_success_def)
  have acc1: "tier1_loop E items v s = (v', s') \<longrightarrow>
        success (tier1_to_tier2 s') + failed (tier1_to_tier2 s')
           = success (tier1_to_tier2 s) + failed (tier1_to_tier2 s) + length items
         \<and> failed (tier1_to_tier2 s) \<le> failed (tier1_to_tier2 s')
         \<and> length (errors (tier1_to_tier2 s'))
             = length (errors (tier1_to_tier2 s))
               + (failed (tier1_to_tier2 s') - failed (tier1_to_tier2 s))
         \<and> take (length (errors (tier1_to_tier2 s))) (errors (tier1_to_tier2 s'))
             = errors (tier1_to_tier2 s)
         \<and> list_all (\<lambda>msg. list_ex (\<lambda>item. names_record E item msg) items)
             (drop (length (errors (tier1_to_tier2 s))) (errors (tier1_to_tier2 s')))"
    using tier1_loop_accounting[of E items v s v' s'] by blast
  have acc2: "tier2_loop E items v s = (v', s') \<longrightarrow>
        success (tier2_to_tier3 s') + failed (tier2_to_tier3 s')
           = success (tier2_to_tier3 s) + failed (tier2_to_tier3 s) + length items
         \<and> failed (tier2_to_tier3 s) \<le> failed (tier2_to_tier3 s')
         \<and> length (errors (tier2_to_tier3 s'))
             = length (errors (tier2_to_tier3 s))
               + (failed (tier2_to_tier3 s') - failed (tier2_to_tier3 s))
         \<and> take (length (errors (tier2_to_tier3 s))) (errors (tier2_to_tier3 s'))
             = errors (tier2_to_tier3 s)
         \<and> list_all (\<lambda>msg. list_ex (\<lambda>item. names_record E item msg) items)
             (drop (length (errors (tier2_to_tier3 s))) (errors (tier2_to_tier3 s')))"
    using tier2_loop_accounting[of E items v s v' s'] by blast
  show ?thesis
    by (intro conjI) (rule a b c acc1 acc2 d1 d2 d3 d4)+
qed

text \<open>
  The theorem at a batch of two records whose first upload fails (the second record
  is still migrated), at a stage whose query fails, at a run of the second stage
  that moves the 100-day record of the scenario to the cold tier, and at the single
  records of these batches: the one whose upload fails and the one that moves.
\<close>

theorem C5_witness:
  "fst (migrate_tier1_to_tier2 (env_fail_at 1) 100 (world_of [r40, r10, r50] []) st0) = Inr ()
   \<and> tier1_to_tier2 (snd (snd (migrate_tier1_to_tier2 (env_fail_at 1) 100
                                 (world_of [r40, r10, r50] []) st0)))
       = \<lparr>success = 1, failed = 1, errors = [''Record r4: ServiceUnavailable'']\<rparr>
   \<and> list_all (\<lambda>msg. list_ex (\<lambda>item. names_record (env_fail_at 1) item msg) [r50, r40])
        [''Record r4: ServiceUnavailable'']
   \<and> (\<exists>e. fst (migrate_tier2_to_tier3 env_down 100 (world_of [r100, r40] []) st0) = Inl e)
   \<and> migrate_tier2_to_tier3 env_ok 100 scenario_world st0
       = (Inr (), tier2_loop env_ok [r100]
                    (scenario_world\<lparr>reads := Suc (reads scenario_world),
                                     log := log scenario_world @ [CosmosQuery]\<rparr>) st0)
   \<and> tier2_to_tier3 (snd (snd (migrate_tier2_to_tier3 env_ok 100 scenario_world st0)))
       = \<lparr>success = 1, failed = 0, errors = []\<rparr>
   \<and> tier1_to_tier2 (snd (tier1_loop (env_fail_at 1) [r50]
         ((world_of [r40, r10, r50] [])\<lparr>reads := 2, log := [CosmosQuery]\<rparr>) st0))
       = \<lparr>success = 0, failed = 1, errors = [''Record r4: ServiceUnavailable'']\<rparr>
   \<and> tier2_to_tier3 (snd (tier2_loop env_ok [r100]
         (scenario_world\<lparr>reads := 1, log := [CosmosQuery]\<rparr>) st0))
       = \<lparr>success = 1, failed = 0, errors = []\<rparr>"
proof -
  let ?W = "world_of [r40, r10, r50] []"
  let ?V = "?W\<lparr>reads := Suc (Suc (reads ?W)), log := log ?W @ [CosmosQuery]\<rparr>"
  let ?L = "tier1_loop (env_fail_at 1) [r50, r40] ?V st0"
  have f0: "faults (env_fail_at 1) (length (log ?W)) = None"
    by (simp add: env_fail_at_def world_of_def)
  have f1: "faults env_down (length (log (world_of [r100, r40] []))) \<noteq> None"
    by (simp add: env_down_def)
  have sel: "tier1_selected (env_fail_at 1) ?W = [r50, r40]"
    by code_simp
  have ev: "tier1_to_tier2 (snd ?L)
             = \<lparr>success = 1, failed = 1, errors = [''Record r4: ServiceUnavailable'']\<rparr>"
    by code_simp
  note A = C5_stage_failures [where E = "env_fail_at 1" and n = 100 and w = ?W and st = st0
             and items = "[r50, r40]" and v = ?V and s = st0 and v' = "fst ?L" and s' = "snd ?L"]
  note B = C5_stage_failures [where E = env_down and n = 100 and w = "world_of [r100, r40] []"
             and st = st0 and items = "[]" and v = ?W and s = st0 and v' = ?W and s' = st0]
  have run: "migrate_tier1_to_tier2 (env_fail_at 1) 100 ?W st0 = (Inr (), ?L)"
    using A f0 sel by simp
  have names: "list_all (\<lambda>msg. list_ex (\<lambda>item. names_record (env_fail_at 1) item msg) [r50, r40])
                 (drop (length (errors (tier1_to_tier2 st0))) (errors (tier1_to_tier2 (snd ?L))))"
    using A by simp
  have raises: "\<exists>e. fst (migrate_tier2_to_tier3 env_down 100 (world_of [r100, r40] []) st0) = Inl e"
    using B f1 by blast
  let ?V2 = "scenario_world\<lparr>reads := Suc (reads scenario_world),
                             log := log scenario_world @ [CosmosQuery]\<rparr>"
  let ?L2 = "tier2_loop env_ok [r100] ?V2 st0"
  have f2: "faults env_ok (length (log scenario_world)) = None"
    by (simp add: env_ok_def)
  have sel2: "tier2_selected env_ok scenario_world = [r100]"
    by code_simp
  have ev2: "tier2_to_tier3 (snd (snd (migrate_tier2_to_tier3 env_ok 100 scenario_world st0)))
               = \<lparr>success = 1, failed = 0, errors = []\<rparr>"
    by code_simp
  note C = C5_stage_failures [where E = env_ok and n = 100 and w = scenario_world and st = st0
             and items = "[r100]" and v = ?V2 and s = st0 and v' = "fst ?L2" and s' = "snd ?L2"]
  have run2: "migrate_tier2_to_tier3 env_ok 100 scenario_world st0 = (Inr (), ?L2)"
    using C f2 sel2 by simp
  let ?U = "(world_of [r40, r10, r50] [])\<lparr>reads := 2, log := [CosmosQuery]\<rparr>"
  have h1: "fst (migrate_item_tier1 (env_fail_at 1) r50 ?U) = Inl (ServiceError ''ServiceUnavailable'')"
    by code_simp
  have m1: "error_msg (env_fail_at 1) r50 (ServiceError ''ServiceUnavailable'')
              = ''Record r4: ServiceUnavailable''"
    by code_simp
  note D = C5_stage_failures [where E = "env_fail_at 1" and n = 100 and w = ?W and st = st0
             and items = "[]" and v = ?U and s = st0 and v' = ?U and s' = st0
             and item = r50 and e = "ServiceError ''ServiceUnavailable''" and sz = 0]
  have step1: "tier1_to_tier2 (snd (tier1_loop (env_fail_at 1) [r50] ?U st0))
                 = \<lparr>success = 0, failed = 1, errors = [''Record r4: ServiceUnavailable'']\<rparr>"
    using D h1 m1 by (simp add: st0_def)
  let ?U2 = "scenario_world\<lparr>reads := 1, log := [CosmosQuery]\<rparr>"
  have h2: "fst (migrate_item_tier2 env_ok r100 ?U2) = Inr 120"
    by code_simp
  note F = C5_stage_failures [where E = env_ok and n = 100 and w = scenario_world and st = st0
             and items = "[]" and v = ?U2 and s = st0 and v' = ?U2 and s' = st0
             and item = r100 and e = TypeError and sz = 120]
  have step2: "tier2_to_tier3 (snd (tier2_loop env_ok [r100] ?U2 st0))
                 = \<lparr>success = 1, failed = 0, errors = []\<rparr>"
    using F h2 by (simp add: st0_def)
  show ?thesis
    using run ev names raises run2 ev2 step1 step2 by (simp add: st0_def)
qed

section \<open>Migration: the selection of the first stage\<close>

lemma migrate_item_tier1_cosmos:
  "length (cosmos (snd (migrate_item_tier1 E item w))) = length (cosmos w)
   \<and> (\<forall>k < length (cosmos w). map_of (cosmos w ! k) ''id'' \<noteq> map_of item ''id''
         \<longrightarrow> cosmos (snd (migrate_item_tier1 E item w)) ! k = cosmos w ! k)"
proof (cases "cosmos (snd (migrate_item_tier1 E item w)) = cosmos w")
  case True
  then show ?thesis by simp
next
  case False
  from migrate_item_tier1_changes[OF False] obtain p i where
    i: "map_of item ''id'' = Some (VStr i)"
    and res: "snd (migrate_item_tier1 E item w) =
               w\<lparr>reads := Suc (Suc (reads w)),
                  log := log w @ [BlobPut hot_container p, CosmosReplace i],
                  blobs := (blobs w)((hot_container, p) \<mapsto> Json (VDict item)),
                  cosmos := map (\<lambda>d. if has_id i d
                                    then mark_migrated ''hot_blob'' p ''migrated_to_hot_at''
                                           (isoformat E (clock E (Suc (reads w))))
                                           (dumps_len E (VDict item)) item
                                    else d) (cosmos w)\<rparr>"
    by blast
  show ?thesis
    by (simp add: res i has_id_def)
qed

lemma tier1_loop_untouched:
  assumes "k < length (cosmos w)"
      and "\<forall>item \<in> set items. map_of (cosmos w ! k) ''id'' \<noteq> map_of item ''id''"
  shows "length (cosmos (fst (tier1_loop E items w st))) = length (cosmos w)
         \<and> cosmos (fst (tier1_loop E items w st)) ! k = cosmos w ! k"
  using assms
proof (induction items arbitrary: w st)
  case Nil
  then show ?case by simp
next
  case (Cons item items)
  obtain r w1 where step: "migrate_item_tier1 E item w = (r, w1)"
    by (cases "migrate_item_tier1 E item w")
  from migrate_item_tier1_cosmos[of E item w] step Cons.prems
  have len: "length (cosmos w1) = length (cosmos w)" and same: "cosmos w1 ! k = cosmos w ! k"
    by auto
  have k1: "k < length (cosmos w1)" using len Cons.prems(1) by simp
  have ids: "\<forall>it \<in> set items. map_of (cosmos w1 ! k) ''id'' \<noteq> map_of it ''id''"
    using Cons.prems(2) same by simp
  show ?case
  proof (cases r)
    case (Inl e)
    then show ?thesis
      using Cons.IH[OF k1 ids] step len same by simp
  next
    case (Inr n)
    then show ?thesis
      using Cons.IH[OF k1 ids] step len same by simp
  qed
qed

lemma tier1_loop_length:
  "length (cosmos (fst (tier1_loop E items w st))) = length (cosmos w)"
proof (induction items arbitrary: w st)
  case Nil
  then show ?case by simp
next
  case (Cons item items)
  obtain r w1 where step: "migrate_item_tier1 E item w = (r, w1)"
    by (cases "migrate_item_tier1 E item w")
  from migrate_item_tier1_cosmos[of E item w] step
  have len: "length (cosmos w1) = length (cosmos w)" by simp
  show ?case
    using Cons.IH[of w1] step len by (cases r) simp_all
qed

lemma matches_tier1:
  "matches (Tier1Window hi lo) d \<longleftrightarrow>
     (\<exists>s. map_of d ''createdAt'' = Some (VStr s) \<and> lo \<le> s \<and> s < hi
          \<and> (py_get d ''storage_tier'' = VNone \<or> py_get d ''storage_tier'' = VStr ''cosmos''))"
proof (cases "map_of d ''createdAt''")
  case None
  then show ?thesis by (simp add: created_at_str_def)
next
  case (Some v)
  then show ?thesis by (cases v) (auto simp: created_at_str_def)
qed

lemma tier1_selected_set:
  "set (tier1_selected E w) =
     {d \<in> set (cosmos w). \<exists>s. map_of d ''createdAt'' = Some (VStr s)
        \<and> isoformat E (clock E (Suc (reads w)) - days 90) \<le> s
        \<and> s < isoformat E (clock E (reads w) - days 30)
        \<and> (py_get d ''storage_tier'' = VNone \<or> py_get d ''storage_tier'' = VStr ''cosmos'')}"
proof -
  have "set (tier1_selected E w) =
          {d \<in> set (cosmos w).
             matches (Tier1Window (isoformat E (clock E (reads w) - days 30))
                                  (isoformat E (clock E (Suc (reads w)) - days 90))) d}"
    by (simp add: tier1_selected_def)
  then show ?thesis
    by (simp only: matches_tier1)
qed

lemma tier1_selected_sorted: "sorted (map created_key (tier1_selected E w))"
  by (simp add: tier1_selected_def)

lemma distinct_ids_docs:
  assumes "distinct (map (\<lambda>d. map_of d ''id'') docs)"
  shows "distinct docs"
  using assms by (simp add: distinct_map)

lemma tier1_selected_distinct:
  assumes "distinct (map (\<lambda>d. map_of d ''id'') (cosmos w))"
  shows "distinct (tier1_selected E w)"
  using distinct_ids_docs[OF assms] by (simp add: tier1_selected_def)

lemma tier1_stage_untouched:
  assumes dis: "distinct (map (\<lambda>d. map_of d ''id'') (cosmos w))"
      and k: "k < length (cosmos w)"
      and ns: "cosmos w ! k \<notin> set (tier1_selected E w)"
  shows "length (cosmos (fst (snd (migrate_tier1_to_tier2 E n w st)))) = length (cosmos w)
         \<and> cosmos (fst (snd (migrate_tier1_to_tier2 E n w st))) ! k = cosmos w ! k"
proof (cases "faults E (length (log w))")
  case (Some m)
  then show ?thesis by (simp add: migrate_tier1_unfold)
next
  case None
  let ?V = "w\<lparr>reads := Suc (Suc (reads w)), log := log w @ [CosmosQuery]\<rparr>"
  have inj: "inj_on (\<lambda>d. map_of d ''id'') (set (cosmos w))"
    using dis by (simp add: distinct_map)
  have sub: "set (tier1_selected E w) \<subseteq> set (cosmos w)"
    by (auto simp: tier1_selected_set)
  have ids: "\<forall>item \<in> set (tier1_selected E w). map_of (cosmos ?V ! k) ''id'' \<noteq> map_of item ''id''"
  proof
    fix item assume it: "item \<in> set (tier1_selected E w)"
    show "map_of (cosmos ?V ! k) ''id'' \<noteq> map_of item ''id''"
    proof
      assume eq: "map_of (cosmos ?V ! k) ''id'' = map_of item ''id''"
      have "cosmos w ! k \<in> set (cosmos w)" using k by simp
      moreover have "item \<in> set (cosmos w)" using it sub by blast
      ultimately have "cosmos w ! k = item" using inj eq by (auto dest: inj_onD)
      then show False using ns it by simp
    qed
  qed
  have k': "k < length (cosmos ?V)" using k by simp
  from tier1_loop_untouched[OF k' ids, of E st]
  show ?thesis by (simp add: migrate_tier1_unfold None)
qed

text \<open>
  C4, as the code has it. When the query succeeds (and the ids of the container are
  distinct), \<^verbatim>\<open>migrate_tier1_to_tier2(batch_size)\<close> processes, whatever \<^verbatim>\<open>batch_size\<close>
  is, all the items selected by the query, in the order of the query. These are exactly
  the documents of the container whose \<^verbatim>\<open>createdAt\<close> is a string \<open>s\<close> with
  \<open>isoformat (now - 90 days) \<le> s < isoformat (now - 30 days)\<close> in the order of strings
  (each bound from its own reading of the clock) and whose \<^verbatim>\<open>storage_tier\<close> is missing,
  null or \<^verbatim>\<open>'cosmos'\<close>; they come without repetition, in ascending order of \<^verbatim>\<open>createdAt\<close>,
  and each is counted as a success or as a failure. Every other document of the
  container is at the end what it was at the start.
\<close>

theorem C4_selection_amended:
  assumes "faults E (length (log w)) = None"
      and "distinct (map (\<lambda>d. map_of d ''id'') (cosmos w))"
  shows "migrate_tier1_to_tier2 E batch_size w st
           = (Inr (), tier1_loop E (tier1_selected E w)
                        (w\<lparr>reads := Suc (Suc (reads w)), log := log w @ [CosmosQuery]\<rparr>) st)
         \<and> set (tier1_selected E w) =
             {d \<in> set (cosmos w). \<exists>s. map_of d ''createdAt'' = Some (VStr s)
                \<and> isoformat E (clock E (Suc (reads w)) - days 90) \<le> s
                \<and> s < isoformat E (clock E (reads w) - days 30)
                \<and> (py_get d ''storage_tier'' = VNone \<or> py_get d ''storage_tier'' = VStr ''cosmos'')}
         \<and> distinct (tier1_selected E w)
         \<and> sorted (map created_key (tier1_selected E w))
         \<and> success (tier1_to_tier2 (snd (snd (migrate_tier1_to_tier2 E batch_size w st))))
             + failed (tier1_to_tier2 (snd (snd (migrate_tier1_to_tier2 E batch_size w st))))
             = success (tier1_to_tier2 st) + failed (tier1_to_tier2 st)
               + length (tier1_selected E w)
         \<and> length (cosmos (fst (snd (migrate_tier1_to_tier2 E batch_size w st))))
             = length (cosmos w)
         \<and> (\<forall>k < length (cosmos w). cosmos w ! k \<notin> set (tier1_selected E w) \<longrightarrow>
               cosmos (fst (snd (migrate_tier1_to_tier2 E batch_size w st))) ! k = cosmos w ! k)"
proof -
  let ?V = "w\<lparr>reads := Suc (Suc (reads w)), log := log w @ [CosmosQuery]\<rparr>"
  let ?L = "tier1_loop E (tier1_selected E w) ?V st"
  have run: "migrate_tier1_to_tier2 E batch_size w st = (Inr (), ?L)"
    using assms(1) by (simp add: migrate_tier1_unfold)
  have acc: "success (tier1_to_tier2 (snd ?L)) + failed (tier1_to_tier2 (snd ?L))
             = success (tier1_to_tier2 st) + failed (tier1_to_tier2 st)
               + length (tier1_selected E w)"
    using tier1_loop_accounting[of E "tier1_selected E w" ?V st "fst ?L" "snd ?L"] by simp
  have len: "length (cosmos (fst (snd (migrate_tier1_to_tier2 E batch_size w st))))
             = length (cosmos w)"
    by (simp add: run tier1_loop_length)
  show ?thesis
    using run acc len tier1_selected_set[of E w] tier1_selected_distinct[OF assms(2), of E]
      tier1_selected_sorted[of E w] tier1_stage_untouched[OF assms(2), of _ E batch_size st]
    by simp
qed

text \<open>
  The theorem at the scenario of the specification: of the records aged 100 days
  (already in the hot tier), 40 days and 10 days, a run with batch size 10 selects
  and migrates the 40-day record alone, with one success and no failure.
\<close>

theorem C4_witness:
  "tier1_selected env_ok scenario_world = [r40]
   \<and> tier1_to_tier2 (snd (snd (migrate_tier1_to_tier2 env_ok 10 scenario_world st0)))
       = \<lparr>success = 1, failed = 0, errors = []\<rparr>
   \<and> cosmos (fst (snd (migrate_tier1_to_tier2 env_ok 10 scenario_world st0))) ! 0 = r100
   \<and> cosmos (fst (snd (migrate_tier1_to_tier2 env_ok 10 scenario_world st0))) ! 2 = r10
   \<and> py_get (cosmos (fst (snd (migrate_tier1_to_tier2 env_ok 10 scenario_world st0))) ! 1)
        ''storage_tier'' = VStr ''hot_blob''"
proof -
  have f: "faults env_ok (length (log scenario_world)) = None"
    by (simp add: env_ok_def)
  have d: "distinct (map (\<lambda>d. map_of d ''id'') (cosmos scenario_world))"
    by (simp add: scenario_world_def world_of_def r100_def r40_def r10_def)
  have c: "cosmos scenario_world = [r100, r40, r10]"
    by (simp add: scenario_world_def world_of_def)
  have sel: "tier1_selected env_ok scenario_world = [r40]"
    by code_simp
  have ne: "r100 \<noteq> r40" "r10 \<noteq> r40"
    by (simp_all add: r100_def r40_def r10_def)
  have ev: "tier1_to_tier2 (snd (snd (migrate_tier1_to_tier2 env_ok 10 scenario_world st0)))
              = \<lparr>success = 1, failed = 0, errors = []\<rparr>"
    by code_simp
  have tier: "py_get (cosmos (fst (snd (migrate_tier1_to_tier2 env_ok 10 scenario_world st0))) ! 1)
                ''storage_tier'' = VStr ''hot_blob''"
    by code_simp
  note A = C4_selection_amended [OF f d, of 10 st0]
  note U = A [THEN conjunct2, THEN conjunct2, THEN conjunct2, THEN conjunct2, THEN conjunct2,
              THEN conjunct2]
  have k0: "cosmos (fst (snd (migrate_tier1_to_tier2 env_ok 10 scenario_world st0))) ! 0 = r100"
    using U [THEN spec, of 0] ne by (simp add: sel c)
  have k2: "cosmos (fst (snd (migrate_tier1_to_tier2 env_ok 10 scenario_world st0))) ! 2 = r10"
    using U [THEN spec, of 2] ne by (simp add: sel c)
  show ?thesis using sel ev k0 k2 tier by simp
qed

text \<open>
  C4 as stated fails at a batch size of 1 and a container with two records in the
  window: both are selected and both are migrated, so the batch has more records than
  \<^verbatim>\<open>batch_size\<close>.
\<close>

theorem C4_counterexample:
  "tier1_selected env_ok (world_of [r40, r10, r50] []) = [r50, r40]
   \<and> tier1_to_tier2 (snd (snd (migrate_tier1_to_tier2 env_ok 1 (world_of [r40, r10, r50] []) st0)))
       = \<lparr>success = 2, failed = 0, errors = []\<rparr>
   \<and> map (\<lambda>d. py_get d ''storage_tier'')
        (cosmos (fst (snd (migrate_tier1_to_tier2 env_ok 1 (world_of [r40, r10, r50] []) st0))))
       = [VStr ''hot_blob'', VNone, VStr ''hot_blob'']"
  by code_simp

section \<open>Migration: running the first stage again\<close>

text \<open>Two records with different ids never get the same blob path of the hot tier.\<close>

lemma after_slash_seg:
  assumes "CHR ''/'' \<notin> set a"
  shows "after_slash (a @ CHR ''/'' # b) = b"
proof -
  have "\<forall>x \<in> set a. x \<noteq> CHR ''/''" using assms by blast
  then have "dropWhile (\<lambda>c. c \<noteq> CHR ''/'') a = []" by simp
  then show ?thesis by (simp add: after_slash_def dropWhile_append3)
qed

lemma digit_char_in: "n < 10 \<Longrightarrow> digit_char n \<in> digit_chars"
  unfolding digit_char_def digit_chars_def by (rule nth_mem) simp

lemma slash_not_digit: "CHR ''/'' \<notin> digit_chars"
  by (simp add: digit_chars_def)

lemma e_not_digit: "CHR ''e'' \<notin> digit_chars"
  by (simp add: digit_chars_def)

lemma show_nat_digits: "set (show_nat n) \<subseteq> digit_chars \<and> show_nat n \<noteq> []"
proof (induction n rule: show_nat.induct)
  case (1 n)
  show ?case
  proof (cases "n < 10")
    case True
    have eq: "show_nat n = [digit_char n]"
      using True by (subst show_nat.simps) simp
    show ?thesis
      using digit_char_in[OF True] by (simp only: eq) simp
  next
    case False
    have eq: "show_nat n = show_nat (n div 10) @ [digit_char (n mod 10)]"
      using False by (subst show_nat.simps) simp
    have m: "n mod 10 < 10" by simp
    have ih: "set (show_nat (n div 10)) \<subseteq> digit_chars"
      using 1[OF False] by blast
    have "digit_char (n mod 10) \<in> digit_chars"
      using digit_char_in[OF m] .
    then show ?thesis
      using ih by (simp only: eq) simp
  qed
qed

lemma show_nat_no_slash: "CHR ''/'' \<notin> set (show_nat n)"
  using show_nat_digits[of n] slash_not_digit by blast

lemma show_nat_hd: "hd (show_nat n) \<in> digit_chars"
  using show_nat_digits[of n] hd_in_set[of "show_nat n"] by blast

lemma pad2_no_slash: "CHR ''/'' \<notin> set (pad2 n)"
  by (simp add: pad2_def show_nat_no_slash)

lemma not_isalnum_slash: "\<not> isalnum CHR ''/''"
  by (simp add: isalnum_def)

lemma sanitize_char_no_slash: "sanitize_char c \<noteq> CHR ''/''"
  using not_isalnum_slash by (auto simp: sanitize_char_def)

lemma sanitize_piece_no_slash: "CHR ''/'' \<notin> set (sanitize_piece t)"
  using not_isalnum_slash by (auto simp: sanitize_piece_def list_all_iff)

lemma sanitize_pieces_no_slash: "sanitize_pieces vs = Inr r \<Longrightarrow> CHR ''/'' \<notin> set r"
proof (induction vs arbitrary: r)
  case Nil
  then show ?case by simp
next
  case (Cons v vs)
  show ?case
  proof (cases v)
    case (VStr t)
    from Cons.prems VStr obtain r' where r': "sanitize_pieces vs = Inr r'"
      and r: "r = sanitize_piece t @ r'"
      by (cases "sanitize_pieces vs") auto
    from Cons.IH[OF r'] sanitize_piece_no_slash[of t] show ?thesis
      by (simp add: r)
  qed (use Cons.prems in simp_all)
qed

lemma safe_customer_id_no_slash:
  assumes "safe_customer_id v = Inr c"
  shows "CHR ''/'' \<notin> set c"
proof (cases v)
  case (VStr s)
  then have c: "c = map sanitize_char s" using assms by simp
  show ?thesis
  proof
    assume "CHR ''/'' \<in> set c"
    then obtain x where "sanitize_char x = CHR ''/''" using c by auto
    then show False using sanitize_char_no_slash by blast
  qed
next
  case (VList vs)
  then show ?thesis using assms by (simp add: sanitize_pieces_no_slash)
next
  case (VDict kvs)
  then show ?thesis using assms by (simp add: sanitize_pieces_no_slash)
qed (use assms in simp_all)

lemma generate_hot_shape:
  assumes g: "generate_blob_path E (VDict d) ''hot'' = Inr p"
      and i: "map_of d ''id'' = Some (VStr i)"
  shows "normal_path p i \<or> p = ''hot/error/'' @ i @ ''.json''"
proof (cases "blob_path_try E (VDict d) ''hot''")
  case (Inl e)
  then show ?thesis
    using g i by (simp add: generate_blob_path_def blob_path_fallback_def py_index_def
                     format_val_def)
next
  case (Inr q)
  then have pq: "p = q" using g by (simp add: generate_blob_path_def)
  from Inr obtain s y m dd c where
    "fromisoformat E (replace_Z s) = Some (y, m, dd)"
    and c: "safe_customer_id (py_get_default d ''customerId'' (VStr ''unknown'')) = Inr c"
    and q: "q = ''hot'' @ ''/'' @ show_nat y @ ''/'' @ pad2 m @ ''/'' @ pad2 dd @ ''/'' @ c
                @ ''/'' @ i @ ''.json''"
    using i
    by (auto simp: blob_path_try_def py_index_def format_val_def
             split: option.splits val.splits sum.splits prod.splits)
  have "normal_path p i"
    unfolding normal_path_def
    apply (rule exI[of _ "show_nat y"], rule exI[of _ "pad2 m"], rule exI[of _ "pad2 dd"],
           rule exI[of _ c])
    using show_nat_no_slash[of y] pad2_no_slash[of m] pad2_no_slash[of dd]
      safe_customer_id_no_slash[OF c] show_nat_digits[of y] show_nat_hd[of y]
    by (simp add: pq q)
  then show ?thesis ..
qed

lemma normal_path_id:
  assumes "normal_path p i"
  shows "after_slash (after_slash (after_slash (after_slash (after_slash p)))) = i @ ''.json''"
proof -
  from assms obtain Y M D C where
    p: "p = ''hot'' @ CHR ''/'' # Y @ CHR ''/'' # M @ CHR ''/'' # D @ CHR ''/'' # C
            @ CHR ''/'' # i @ ''.json''"
    and ns: "CHR ''/'' \<notin> set Y" "CHR ''/'' \<notin> set M" "CHR ''/'' \<notin> set D" "CHR ''/'' \<notin> set C"
    unfolding normal_path_def by blast
  have h: "CHR ''/'' \<notin> set ''hot''" by simp
  show ?thesis
    unfolding p
    by (simp only: after_slash_seg[OF h] after_slash_seg[OF ns(1)] after_slash_seg[OF ns(2)]
          after_slash_seg[OF ns(3)] after_slash_seg[OF ns(4)])
qed

lemma normal_path_not_fallback:
  assumes "normal_path p i"
  shows "p \<noteq> ''hot/error/'' @ j @ ''.json''"
proof
  assume e: "p = ''hot/error/'' @ j @ ''.json''"
  from assms obtain Y R where
    p: "p = ''hot'' @ CHR ''/'' # Y @ R" and ne: "Y \<noteq> []" and hd: "hd Y \<in> digit_chars"
    unfolding normal_path_def by auto
  from ne obtain y ys where Y: "Y = y # ys" by (cases Y) auto
  from p e Y have "y = CHR ''e''" by simp
  then show False using hd Y e_not_digit by simp
qed

lemma hot_path_inj:
  assumes "generate_blob_path E (VDict a) ''hot'' = Inr p"
      and "generate_blob_path E' (VDict b) ''hot'' = Inr p"
      and "map_of a ''id'' = Some (VStr i)" and "map_of b ''id'' = Some (VStr j)"
  shows "i = j"
proof -
  from generate_hot_shape[OF assms(1,3)] generate_hot_shape[OF assms(2,4)]
  consider "normal_path p i" "normal_path p j"
    | "p = ''hot/error/'' @ i @ ''.json''" "p = ''hot/error/'' @ j @ ''.json''"
    using normal_path_not_fallback by blast
  then show ?thesis
  proof cases
    case 1
    from normal_path_id[OF 1(1)] normal_path_id[OF 1(2)] show ?thesis by simp
  next
    case 2
    then show ?thesis by simp
  qed
qed


lemma replace_by_own_id_blobs: "blobs (snd (replace_by_own_id E item w)) = blobs w"
  by (simp add: replace_by_own_id_def replace_item_def backend_call_def
           split: sum.splits val.splits option.splits)

lemma migrate_item_tier1_blobs:
  "blobs (snd (migrate_item_tier1 E item w)) = blobs w
   \<or> (\<exists>p. generate_blob_path E (VDict item) ''hot'' = Inr p
          \<and> blobs (snd (migrate_item_tier1 E item w))
              = (blobs w)((hot_container, p) \<mapsto> Json (VDict item)))"
proof (cases "generate_blob_path E (VDict item) ''hot''")
  case (Inl e)
  then show ?thesis by (simp add: migrate_item_tier1_def)
next
  case (Inr p)
  from generate_blob_path_has_id[OF Inr] obtain i where i: "map_of item ''id'' = Some i" ..
  show ?thesis
  proof (cases "faults E (length (log w))")
    case (Some m)
    then show ?thesis by (simp add: migrate_item_tier1_def Inr store_in_blob_dict[OF i])
  next
    case None
    let ?w2 = "w\<lparr>log := log w @ [BlobPut hot_container p],
                   blobs := (blobs w)((hot_container, p) \<mapsto> Json (VDict item)),
                   reads := Suc (Suc (reads w))\<rparr>"
    let ?item' = "mark_migrated ''hot_blob'' p ''migrated_to_hot_at''
                    (isoformat E (clock E (Suc (reads w)))) (dumps_len E (VDict item)) item"
    obtain r w3 where rp: "replace_by_own_id E ?item' ?w2 = (r, w3)"
      by (cases "replace_by_own_id E ?item' ?w2")
    have b3: "blobs w3 = (blobs w)((hot_container, p) \<mapsto> Json (VDict item))"
      using replace_by_own_id_blobs[of E ?item' ?w2] rp by simp
    have "snd (migrate_item_tier1 E item w) = w3"
      using rp
      by (cases r) (simp_all add: migrate_item_tier1_def Inr store_in_blob_dict[OF i] None utcnow_def)
    then have "blobs (snd (migrate_item_tier1 E item w))
                 = (blobs w)((hot_container, p) \<mapsto> Json (VDict item))"
      using b3 by simp
    then show ?thesis using Inr by blast
  qed
qed

lemma tier1_loop_blob_untouched:
  assumes "\<forall>item \<in> set items. generate_blob_path E (VDict item) ''hot'' \<noteq> Inr p"
  shows "blobs (fst (tier1_loop E items w st)) (hot_container, p) = blobs w (hot_container, p)"
  using assms
proof (induction items arbitrary: w st)
  case Nil
  then show ?case by simp
next
  case (Cons item items)
  obtain r w1 where step: "migrate_item_tier1 E item w = (r, w1)"
    by (cases "migrate_item_tier1 E item w")
  have np: "generate_blob_path E (VDict item) ''hot'' \<noteq> Inr p"
    using Cons.prems by simp
  from migrate_item_tier1_blobs[of E item w] step np
  have same: "blobs w1 (hot_container, p) = blobs w (hot_container, p)"
    by auto
  have rest: "\<forall>it \<in> set items. generate_blob_path E (VDict it) ''hot'' \<noteq> Inr p"
    using Cons.prems by simp
  show ?case
    using Cons.IH[OF rest, of w1] step same by (cases r) simp_all
qed

lemma hot_blob_not_selected:
  assumes "py_get d ''storage_tier'' = VStr ''hot_blob''"
  shows "d \<notin> set (tier1_selected E w)"
  using assms by (simp add: tier1_selected_set)

lemma has_str_idD: "has_str_id d \<Longrightarrow> \<exists>i. map_of d ''id'' = Some (VStr i)"
  by (auto simp: has_str_id_def split: option.splits val.splits)

text \<open>
  C7. In a container whose ids are distinct strings, let a record have been migrated:
  its pointer has \<^verbatim>\<open>storage_tier = 'hot_blob'\<close>, as the pointer written by a migration
  has, and its blob is at the path \<open>p\<close> that \<^verbatim>\<open>_generate_blob_path\<close> gave for a record of
  this id. Then a call of \<^verbatim>\<open>migrate_tier1_to_tier2\<close>, under any clock, batch size and
  pattern of failures, does not select the record, leaves its pointer as it is, and
  leaves the blob at \<open>p\<close> in the hot container as it is.
\<close>

theorem C7_idempotent:
  assumes dis: "distinct (map (\<lambda>d. map_of d ''id'') (cosmos w))"
      and str: "list_all has_str_id (cosmos w)"
      and k: "k < length (cosmos w)"
      and tier: "py_get (cosmos w ! k) ''storage_tier'' = VStr ''hot_blob''"
      and orig: "generate_blob_path E0 (VDict item0) ''hot'' = Inr p"
      and same_id: "map_of item0 ''id'' = map_of (cosmos w ! k) ''id''"
  shows "cosmos w ! k \<notin> set (tier1_selected E w)
         \<and> cosmos (fst (snd (migrate_tier1_to_tier2 E n w st))) ! k = cosmos w ! k
         \<and> blobs (fst (snd (migrate_tier1_to_tier2 E n w st))) (hot_container, p)
             = blobs w (hot_container, p)
         \<and> py_get (mark_migrated ''hot_blob'' p ''migrated_to_hot_at'' stamp sz item0)
              ''storage_tier'' = VStr ''hot_blob''
         \<and> map_of (mark_migrated ''hot_blob'' p ''migrated_to_hot_at'' stamp sz item0) ''id''
             = map_of item0 ''id''"
proof -
  let ?d = "cosmos w ! k"
  have ns: "?d \<notin> set (tier1_selected E w)"
    using tier by (rule hot_blob_not_selected)
  have ptr: "cosmos (fst (snd (migrate_tier1_to_tier2 E n w st))) ! k = ?d"
    using tier1_stage_untouched[OF dis k ns] by simp
  have dk: "?d \<in> set (cosmos w)" using k by simp
  then obtain i where i: "map_of ?d ''id'' = Some (VStr i)"
    using str has_str_idD by (auto simp: list_all_iff)
  have i0: "map_of item0 ''id'' = Some (VStr i)" using same_id i by simp
  have inj: "inj_on (\<lambda>d. map_of d ''id'') (set (cosmos w))"
    using dis by (simp add: distinct_map)
  have np: "\<forall>item \<in> set (tier1_selected E w). generate_blob_path E (VDict item) ''hot'' \<noteq> Inr p"
  proof
    fix item assume it: "item \<in> set (tier1_selected E w)"
    then have ic: "item \<in> set (cosmos w)" by (simp add: tier1_selected_set)
    then obtain j where j: "map_of item ''id'' = Some (VStr j)"
      using str has_str_idD by (auto simp: list_all_iff)
    show "generate_blob_path E (VDict item) ''hot'' \<noteq> Inr p"
    proof
      assume g: "generate_blob_path E (VDict item) ''hot'' = Inr p"
      from hot_path_inj[OF g orig j i0] have "j = i" .
      then have "map_of item ''id'' = map_of ?d ''id''" using i j by simp
      then have "item = ?d" using inj ic dk by (auto dest: inj_onD)
      then show False using ns it by simp
    qed
  qed
  have blob: "blobs (fst (snd (migrate_tier1_to_tier2 E n w st))) (hot_container, p)
               = blobs w (hot_container, p)"
  proof (cases "faults E (length (log w))")
    case (Some m)
    then show ?thesis by (simp add: migrate_tier1_unfold)
  next
    case None
    from tier1_loop_blob_untouched[OF np,
           of "w\<lparr>reads := Suc (Suc (reads w)), log := log w @ [CosmosQuery]\<rparr>" st]
    show ?thesis by (simp add: migrate_tier1_unfold None)
  qed
  have m1: "py_get (mark_migrated ''hot_blob'' p ''migrated_to_hot_at'' stamp sz item0)
              ''storage_tier'' = VStr ''hot_blob''"
    by (simp add: mark_migrated_def py_get_def update_conv)
  have m2: "map_of (mark_migrated ''hot_blob'' p ''migrated_to_hot_at'' stamp sz item0) ''id''
             = map_of item0 ''id''"
    by simp
  show ?thesis using ns ptr blob m1 m2 by blast
qed

text \<open>
  The theorem at the scenario, after a first run has migrated the 40-day record: a
  second run selects nothing, and the pointer and the blob of that record stay.
\<close>

theorem C7_witness:
  "py_get (cosmos once_migrated ! 1) ''storage_tier'' = VStr ''hot_blob''
   \<and> tier1_selected env_ok once_migrated = []
   \<and> cosmos (fst (snd (migrate_tier1_to_tier2 env_ok 10 once_migrated st0))) ! 1
       = cosmos once_migrated ! 1
   \<and> blobs (fst (snd (migrate_tier1_to_tier2 env_ok 10 once_migrated st0)))
        (hot_container, ''hot/2025/03/02/c1/r2.json'') = Some (Json (VDict r40))"
proof -
  let ?p = "''hot/2025/03/02/c1/r2.json''"
  have c: "cosmos once_migrated =
             [r100,
              [(''id'', VStr ''r2''), (''customerId'', VStr ''c1''),
               (''createdAt'', VStr ''2025-03-02T08:00:00''),
               (''storage_tier'', VStr ''hot_blob''),
               (''blob_path'', VStr ''hot/2025/03/02/c1/r2.json''),
               (''migrated_to_hot_at'', VStr ''2025-04-11T00:00:00''),
               (''blob_size'', VInt 120)],
              r10]"
    by code_simp
  have dis: "distinct (map (\<lambda>d. map_of d ''id'') (cosmos once_migrated))"
    by (simp add: c r100_def r10_def)
  have str: "list_all has_str_id (cosmos once_migrated)"
    by (simp add: c r100_def r10_def has_str_id_def)
  have k: "1 < length (cosmos once_migrated)"
    by (simp add: c)
  have tier: "py_get (cosmos once_migrated ! 1) ''storage_tier'' = VStr ''hot_blob''"
    by (simp add: c py_get_def)
  have orig: "generate_blob_path env_ok (VDict r40) ''hot'' = Inr ?p"
    by code_simp
  have same_id: "map_of r40 ''id'' = map_of (cosmos once_migrated ! 1) ''id''"
    by (simp add: c r40_def)
  have sel: "tier1_selected env_ok once_migrated = []"
    by code_simp
  have b1: "blobs once_migrated (hot_container, ?p) = Some (Json (VDict r40))"
    by code_simp
  note A = C7_idempotent [OF dis str k tier orig same_id, of env_ok 10 st0]
  show ?thesis
    using A tier sel b1 by simp
qed

end
